theory Spec2Isabelle
  imports Complex_Main
begin

section \<open>The benchmark script of nequip: data model\<close>

text \<open>
  The development follows \<^verbatim>\<open>nequip/scripts/benchmark.py\<close>, whose single function
  \<^verbatim>\<open>main\<close> loads a dataset, samples frames, prepares a model and measures it.
  Exceptions of the script are values of the type \<open>error\<close>.
\<close>

datatype error =
    IndexError
  | KeyError string
  | NotImplementedError
  | ZeroDivisionError
  | StopIteration
  | AssertionError
  | RuntimeError

subsection \<open>Configuration\<close>

text \<open>
  The configuration object is read as a dictionary. The script reads three integer
  entries of it: \<^verbatim>\<open>dataset_seed\<close>, \<^verbatim>\<open>seed\<close> and \<^verbatim>\<open>_jit_bailout_depth\<close>.
\<close>

type_synonym config = "string \<rightharpoonup> int"

text \<open>\<^verbatim>\<open>config.get(key, default)\<close>: the value stored under the key, else the default.\<close>

definition config_get :: "config \<Rightarrow> string \<Rightarrow> int \<Rightarrow> int" where
  "config_get cfg key dflt = (case cfg key of Some v \<Rightarrow> v | None \<Rightarrow> dflt)"

text \<open>\<^verbatim>\<open>config[key]\<close>: raises \<^verbatim>\<open>KeyError\<close> when the key is absent.\<close>

definition config_getitem :: "config \<Rightarrow> string \<Rightarrow> error + int" where
  "config_getitem cfg key = (case cfg key of Some v \<Rightarrow> Inr v | None \<Rightarrow> Inl (KeyError key))"

text \<open>
  The argument of \<^verbatim>\<open>dataset_rng.manual_seed\<close> (line 96). Python evaluates the inner
  \<^verbatim>\<open>config.get("seed", 12345)\<close> first and passes its value as the default of the outer call.
\<close>

definition dataset_seed_of :: "config \<Rightarrow> int" where
  "dataset_seed_of cfg = config_get cfg ''dataset_seed'' (config_get cfg ''seed'' 12345)"

subsection \<open>Frames and the frame sampler\<close>

text \<open>
  A frame, as the sampler reads it: the position tensor, whose length is the number of
  atoms, and the edge list. The element type of the position tensor is left open.
\<close>

record 'a frame =
  pos :: "'a list"
  edge_index :: "(nat \<times> nat) list"

text \<open>Python's slice \<^verbatim>\<open>xs[:k]\<close> for an integer \<open>k\<close>: a negative \<open>k\<close> counts from the end.\<close>

definition slice_to :: "int \<Rightarrow> 'b list \<Rightarrow> 'b list" where
  "slice_to k xs = (if 0 \<le> k then take (nat k) xs else take (length xs - nat (- k)) xs)"

text \<open>
  \<^verbatim>\<open>torch.randperm(len(dataset), generator=dataset_rng)[: args.n_data]\<close> (line 99).
  The generator is created fresh and seeded on lines 95 and 96, so the permutation the
  library returns is a function of the seed and of the length; that function is the
  parameter \<open>rp\<close>.
\<close>

definition sampled_indices :: "(int \<Rightarrow> nat \<Rightarrow> nat list) \<Rightarrow> config \<Rightarrow> nat \<Rightarrow> int \<Rightarrow> nat list" where
  "sampled_indices rp cfg N n_data = slice_to n_data (rp (dataset_seed_of cfg) N)"

text \<open>
  The list comprehension of lines 97 to 100: \<^verbatim>\<open>dataset[i]\<close> for each sampled index, in
  order. An index outside the dataset raises \<^verbatim>\<open>IndexError\<close>.
\<close>

fun load_frames :: "'a frame list \<Rightarrow> nat list \<Rightarrow> error + 'a frame list" where
  "load_frames ds [] = Inr []"
| "load_frames ds (i # idxs) =
     (if i < length ds
      then (case load_frames ds idxs of Inl e \<Rightarrow> Inl e | Inr fs \<Rightarrow> Inr (ds ! i # fs))
      else Inl IndexError)"

text \<open>\<^verbatim>\<open>len(d["pos"])\<close>\<close>

definition n_atoms :: "'a frame \<Rightarrow> nat" where
  "n_atoms d = length (pos d)"

text \<open>
  Lines 95 to 105. \<^verbatim>\<open>datas[0]\<close> raises \<^verbatim>\<open>IndexError\<close> on an empty sample; a frame whose
  atom count differs from the first one's raises \<^verbatim>\<open>NotImplementedError\<close>. The result is
  the list of sampled frames with the atom count \<^verbatim>\<open>n_atom\<close>.
\<close>

definition frame_sampler ::
  "(int \<Rightarrow> nat \<Rightarrow> nat list) \<Rightarrow> config \<Rightarrow> 'a frame list \<Rightarrow> int \<Rightarrow> error + ('a frame list \<times> nat)" where
  "frame_sampler rp cfg ds n_data =
     (case load_frames ds (sampled_indices rp cfg (length ds) n_data) of
        Inl e \<Rightarrow> Inl e
      | Inr datas \<Rightarrow>
          (case datas of
             [] \<Rightarrow> Inl IndexError
           | d0 # _ \<Rightarrow>
               (let n_atom = n_atoms d0 in
                if \<not> list_all (\<lambda>d. n_atoms d = n_atom) datas
                then Inl NotImplementedError
                else Inr (datas, n_atom))))"

subsection \<open>The cyclic frame pool\<close>

text \<open>
  \<^verbatim>\<open>itertools.cycle(datas)\<close> (line 130) with \<^verbatim>\<open>next\<close>: the pool and a cursor. The
  iterator of an empty pool raises \<^verbatim>\<open>StopIteration\<close>, written \<open>None\<close> here.
\<close>

definition cycle_next :: "'b list \<Rightarrow> nat \<Rightarrow> ('b \<times> nat) option" where
  "cycle_next pool c =
     (if pool = [] then None else Some (pool ! c, (c + 1) mod length pool))"

subsection \<open>Floats\<close>

text \<open>
  A Python float is a double: a finite value, an infinity or a NaN. A finite double is
  given by the real number it denotes; the two zeros, which compare equal in Python, are
  one value.
\<close>

datatype pyfloat = Finite real | PosInf | NegInf | NaN

text \<open>
  The float arithmetic the script uses: the float a decimal literal denotes, the
  conversion of an integer that meets a float, multiplication and division. It is a
  parameter of the run; the division is only called with a divisor that is not zero,
  since Python raises \<^verbatim>\<open>ZeroDivisionError\<close> before.
\<close>

record float_ops =
  fl_lit :: "real \<Rightarrow> pyfloat"
  fl_of_nat :: "nat \<Rightarrow> pyfloat"
  fl_mul :: "pyfloat \<Rightarrow> pyfloat \<Rightarrow> pyfloat"
  fl_div :: "pyfloat \<Rightarrow> pyfloat \<Rightarrow> pyfloat"

subsection \<open>Command line and environment\<close>

text \<open>
  The parsed arguments. \<^verbatim>\<open>--timestep\<close> is parsed as a float; its default is the integer
  1, which the multiplication of line 230 converts to the float 1.0.
\<close>

record args =
  arg_config :: string
  arg_profile :: "string option"
  arg_device :: "string option"
  arg_n :: int
  arg_n_data :: int
  arg_timestep :: pyfloat
  arg_no_compile :: bool
  arg_verbose :: string

text \<open>
  What the script obtains from its collaborators: the loaded configuration and dataset,
  the permutation function of the library, the availability of CUDA, the wall-clock
  durations it measures with \<^verbatim>\<open>time.time()\<close>, the representative time
  \<^verbatim>\<open>trim_sigfig(perloop.times[0], perloop.significant_figures)\<close> of the timer, and the
  float arithmetic of the platform.
\<close>

record 'a env =
  env_cuda_available :: bool
  env_config :: config
  env_dataset :: "'a frame list"
  env_randperm :: "int \<Rightarrow> nat \<Rightarrow> nat list"
  env_dataset_time :: real
  env_model_time :: real
  env_compile_time :: real
  env_warmup_time :: real
  env_trim_time :: pyfloat
  env_float :: float_ops

text \<open>Lines 78 to 81.\<close>

definition select_device :: "args \<Rightarrow> 'a env \<Rightarrow> string" where
  "select_device a env =
     (case arg_device a of
        None \<Rightarrow> (if env_cuda_available env then ''cuda'' else ''cpu'')
      | Some d \<Rightarrow> d)"

text \<open>\<^verbatim>\<open>device.type\<close>: the device name up to its index, as in \<^verbatim>\<open>cuda:1\<close>.\<close>

definition device_type :: "string \<Rightarrow> string" where
  "device_type d = takeWhile (\<lambda>c. c \<noteq> CHR '':'') d"

subsection \<open>Model forms\<close>

text \<open>
  The transforms applied to the model are opaque; a model is recorded as the term of the
  transforms that produced it. \<open>Reloaded m d\<close> is the model read back on device \<open>d\<close> from
  a file into which \<open>m\<close> was serialized.
\<close>

datatype model_form =
    FromConfig
  | MovedTo model_form string
  | Scripted model_form
  | Deployed model_form
  | Reloaded model_form string
  | Frozen model_form

subsection \<open>Observable actions\<close>

text \<open>
  The run is observed through the calls it makes to its collaborators and the values it
  prints, in order. The banners that carry no value (\<^verbatim>\<open>Loading dataset...\<close>,
  \<^verbatim>\<open>Building model...\<close>, \<^verbatim>\<open>Compile...\<close>, \<^verbatim>\<open>Warmup...\<close>, \<^verbatim>\<open>Starting...\<close>) are left
  out, and so are the logging set-up and the two configuration checks of lines 74 to 87.
  \<open>BuildModel\<close> stands for \<^verbatim>\<open>model_from_config\<close> with the report of lines 141 to 146,
  \<open>PrintFrameStatistics\<close> for the diagnostics of lines 106 to 127, \<open>TimerTimeit\<close> for
  \<^verbatim>\<open>Timer(...).timeit(args.n)\<close>. The collaborators are taken to return.
\<close>

datatype 'a event =
    PrintUsingDevice string
  | PrintDatasetLoaded real
  | PrintFrameStatistics nat int nat
  | PrintQuit
  | BuildModel real
  | ModelEval
  | ModelTo string
  | JitScript
  | CompileForDeploy
  | PrintCompilationTook real
  | JitSave model_form
  | JitLoad string
  | JitFreeze
  | ProfilerEnter bool int int int int
  | Invoke model_form "'a frame"
  | ProfilerStep
  | ExportTrace string
  | ProfilerExit
  | PrintWarmup int real
  | TimerTimeit model_form int
  | PrintAverageCall pyfloat
  | PrintPerAtom pyfloat
  | PrintNsDay pyfloat pyfloat

text \<open>
  The state threaded through the run after the model is built: the actions so far, the
  current model, the content of the temporary file, the cursor of the cyclic pool, the
  step number of the profiler, and the exception that ended the run, if any.
\<close>

record 'a state =
  events :: "'a event list"
  model :: model_form
  tmpfile :: "model_form option"
  cursor :: nat
  prof_step :: nat
  failed :: "error option"

text \<open>A statement runs only while no exception has been raised.\<close>

definition stmt :: "('a state \<Rightarrow> 'a state) \<Rightarrow> 'a state \<Rightarrow> 'a state" where
  "stmt f s = (if failed s = None then f s else s)"

definition emit :: "'a event \<Rightarrow> 'a state \<Rightarrow> 'a state" where
  "emit e = stmt (\<lambda>s. s\<lparr>events := events s @ [e]\<rparr>)"

definition raise :: "error \<Rightarrow> 'a state \<Rightarrow> 'a state" where
  "raise e = stmt (\<lambda>s. s\<lparr>failed := Some e\<rparr>)"

subsection \<open>Model preparation\<close>

text \<open>\<^verbatim>\<open>model = f(model)\<close> for an opaque transform \<open>f\<close>, logged as the action \<open>e\<close>.\<close>

definition transform :: "'a event \<Rightarrow> (model_form \<Rightarrow> model_form) \<Rightarrow> 'a state \<Rightarrow> 'a state" where
  "transform e f = stmt (\<lambda>s. s\<lparr>events := events s @ [e], model := f (model s)\<rparr>)"

text \<open>\<^verbatim>\<open>torch.jit.save(model, f.name)\<close>: the file now holds the current model.\<close>

definition jit_save :: "'a state \<Rightarrow> 'a state" where
  "jit_save = stmt (\<lambda>s. s\<lparr>events := events s @ [JitSave (model s)], tmpfile := Some (model s)\<rparr>)"

text \<open>
  \<^verbatim>\<open>model = torch.jit.load(f.name, map_location=device)\<close>: the model is what the file
  holds, on the device; reading a file nothing was saved to is an error of the library.
\<close>

definition jit_load :: "string \<Rightarrow> 'a state \<Rightarrow> 'a state" where
  "jit_load d = stmt (\<lambda>s.
     case tmpfile s of
       None \<Rightarrow> s\<lparr>failed := Some RuntimeError\<rparr>
     | Some m \<Rightarrow> s\<lparr>events := events s @ [JitLoad d], model := Reloaded m d\<rparr>)"

text \<open>Lines 148 to 168.\<close>

definition prepare_model :: "bool \<Rightarrow> string \<Rightarrow> real \<Rightarrow> 'a state \<Rightarrow> 'a state" where
  "prepare_model no_compile d compile_time s =
     (let s = emit ModelEval s in
      if no_compile
      then transform (ModelTo d) (\<lambda>m. MovedTo m d) s
      else
        (let s = transform JitScript Scripted s;
             s = transform CompileForDeploy Deployed s;
             s = emit (PrintCompilationTook compile_time) s;
             s = jit_save s;
             s = jit_load d s;
             s = transform JitFreeze Frozen s;
             s = jit_save s;
             s = jit_load d s
         in s))"

subsection \<open>Warmup depth and model calls\<close>

text \<open>Line 171: \<^verbatim>\<open>warmup = config["_jit_bailout_depth"] + 4\<close>.\<close>

definition warmup_depth :: "config \<Rightarrow> error + int" where
  "warmup_depth cfg =
     (case config_getitem cfg ''_jit_bailout_depth'' of
        Inl e \<Rightarrow> Inl e
      | Inr depth \<Rightarrow> Inr (depth + 4))"

text \<open>
  \<^verbatim>\<open>model(next(datas).copy())\<close>: the next frame of the cyclic pool is handed to the current
  model. At this level frames are values; what \<^verbatim>\<open>.copy()\<close> shares with the pool is the
  subject of the store model further down.
\<close>

definition call_model :: "'a frame list \<Rightarrow> 'a state \<Rightarrow> 'a state" where
  "call_model pool = stmt (\<lambda>s.
     case cycle_next pool (cursor s) of
       None \<Rightarrow> s\<lparr>failed := Some StopIteration\<rparr>
     | Some (d, c) \<Rightarrow> s\<lparr>events := events s @ [Invoke (model s) d], cursor := c\<rparr>)"

subsection \<open>Tracing mode\<close>

datatype profiler_action = NONE | WARMUP | RECORD | RECORD_AND_SAVE

text \<open>
  Modelled from the spec: the tracing facility (the profiler session and its schedule),
  which the script only calls. A schedule \<open>wait\<close>, \<open>warmup\<close>, \<open>active\<close>, \<open>repeat\<close> assigns
  to each step number its phase: \<open>wait\<close> throwaway steps, then \<open>warmup\<close> steps discarded
  from the trace, then \<open>active\<close> captured steps, the last of which closes the cycle; after
  \<open>repeat\<close> cycles (when \<open>repeat\<close> is positive) nothing more is captured.
\<close>

definition schedule_fn :: "int \<Rightarrow> int \<Rightarrow> int \<Rightarrow> int \<Rightarrow> nat \<Rightarrow> profiler_action" where
  "schedule_fn wait warmup active repeat step =
     (let num_steps = wait + warmup + active in
      if 0 < repeat \<and> repeat * num_steps \<le> int step then NONE
      else
        (let mod_step = int step mod num_steps in
         if mod_step < wait then NONE
         else if mod_step < wait + warmup then WARMUP
         else if mod_step < num_steps - 1 then RECORD
         else RECORD_AND_SAVE))"

text \<open>
  Modelled from the spec: opening the session. The schedule is checked first, as the
  profiler library does (non-negative \<open>wait\<close>, \<open>warmup\<close> and \<open>repeat\<close>, positive
  \<open>active\<close>); the flag tells whether the CUDA activity is traced besides the CPU
  activity (line 184).
\<close>

definition profiler_enter :: "bool \<Rightarrow> int \<Rightarrow> int \<Rightarrow> int \<Rightarrow> int \<Rightarrow> 'a state \<Rightarrow> 'a state" where
  "profiler_enter cuda wait warmup active repeat = stmt (\<lambda>s.
     if 0 \<le> wait \<and> 0 \<le> warmup \<and> 0 < active \<and> 0 \<le> repeat
     then s\<lparr>events := events s @ [ProfilerEnter cuda wait warmup active repeat], prof_step := 0\<rparr>
     else s\<lparr>failed := Some AssertionError\<rparr>)"

text \<open>
  Modelled from the spec: \<^verbatim>\<open>p.step()\<close> advances the schedule by one step. When the step
  left behind closed a cycle, the session is complete and the handler of lines 175 to 177
  exports the captured timeline to the path.
\<close>

definition profiler_step :: "(nat \<Rightarrow> profiler_action) \<Rightarrow> string \<Rightarrow> 'a state \<Rightarrow> 'a state" where
  "profiler_step sched path = stmt (\<lambda>s.
     let prev = sched (prof_step s);
         s = s\<lparr>events := events s @ [ProfilerStep], prof_step := prof_step s + 1\<rparr>
     in if prev = RECORD_AND_SAVE then s\<lparr>events := events s @ [ExportTrace path]\<rparr> else s)"

text \<open>
  Modelled from the spec: leaving the \<^verbatim>\<open>with\<close> block closes the session, also when the
  block raised. A capture still in progress at that moment is exported.
\<close>

definition profiler_exit :: "(nat \<Rightarrow> profiler_action) \<Rightarrow> string \<Rightarrow> 'a state \<Rightarrow> 'a state" where
  "profiler_exit sched path s =
     (let cur = sched (prof_step s);
          s = (if cur = RECORD \<or> cur = RECORD_AND_SAVE
               then s\<lparr>events := events s @ [ExportTrace path]\<rparr> else s)
      in s\<lparr>events := events s @ [ProfilerExit]\<rparr>)"

text \<open>Lines 173 to 192.\<close>

definition tracing :: "string \<Rightarrow> string \<Rightarrow> int \<Rightarrow> int \<Rightarrow> 'a frame list \<Rightarrow> 'a state \<Rightarrow> 'a state" where
  "tracing path d warmup n pool s =
     (let sched = schedule_fn 1 warmup n 1;
          s = profiler_enter (device_type d = ''cuda'') 1 warmup n 1 s
      in if failed s \<noteq> None then s
         else
           (let s = ((\<lambda>s. profiler_step sched path (call_model pool s)) ^^ nat (1 + warmup + n)) s
            in profiler_exit sched path s))"

subsection \<open>Timing mode and the derived metrics\<close>

text \<open>
  Line 225: \<^verbatim>\<open>per_atom_time = trim_time / n_atom\<close>, a float divided by an integer. The
  integer is converted to a float and the division raises when it is zero.
\<close>

definition per_atom_time :: "float_ops \<Rightarrow> pyfloat \<Rightarrow> nat \<Rightarrow> error + pyfloat" where
  "per_atom_time ops t n_atom =
     (if n_atom = 0 then Inl ZeroDivisionError
      else Inr (fl_div ops t (fl_of_nat ops n_atom)))"

text \<open>
  Line 230: \<^verbatim>\<open>ns_day = (86400.0 / trim_time) * args.timestep * 1e-6\<close>, evaluated from
  the left: a float division, which raises when \<^verbatim>\<open>trim_time\<close> is zero, and two float
  multiplications.
\<close>

definition ns_day :: "float_ops \<Rightarrow> pyfloat \<Rightarrow> pyfloat \<Rightarrow> error + pyfloat" where
  "ns_day ops t timestep =
     (if t = Finite 0 then Inl ZeroDivisionError
      else Inr (fl_mul ops (fl_mul ops (fl_div ops (fl_lit ops 86400) t) timestep)
                  (fl_lit ops (1 / 1000000))))"

text \<open>Lines 208 to 234.\<close>

definition report :: "float_ops \<Rightarrow> pyfloat \<Rightarrow> nat \<Rightarrow> pyfloat \<Rightarrow> 'a state \<Rightarrow> 'a state" where
  "report ops t n_atom timestep s =
     (let s = emit (PrintAverageCall t) s in
      case per_atom_time ops t n_atom of
        Inl e \<Rightarrow> raise e s
      | Inr pat \<Rightarrow>
          (let s = emit (PrintPerAtom pat) s in
           case ns_day ops t timestep of
             Inl e \<Rightarrow> raise e s
           | Inr v \<Rightarrow> emit (PrintNsDay timestep v) s))"

text \<open>Lines 194 to 199: the warmup loop \<^verbatim>\<open>for _ in range(warmup)\<close> and its report.\<close>

definition warmup_phase :: "int \<Rightarrow> real \<Rightarrow> 'a frame list \<Rightarrow> 'a state \<Rightarrow> 'a state" where
  "warmup_phase warmup warmup_time pool s =
     emit (PrintWarmup warmup warmup_time) ((call_model pool ^^ nat warmup) s)"

text \<open>
  Lines 201 to 206: the timer runs the statement \<^verbatim>\<open>model(next(datas).copy())\<close> for
  \<^verbatim>\<open>timeit(args.n)\<close>; its calls happen inside the library and are recorded as one action.
\<close>

definition timer_timeit :: "int \<Rightarrow> 'a state \<Rightarrow> 'a state" where
  "timer_timeit n = stmt (\<lambda>s. s\<lparr>events := events s @ [TimerTimeit (model s) n]\<rparr>)"

definition timing ::
  "float_ops \<Rightarrow> int \<Rightarrow> int \<Rightarrow> real \<Rightarrow> pyfloat \<Rightarrow> nat \<Rightarrow> pyfloat \<Rightarrow> 'a frame list \<Rightarrow>
   'a state \<Rightarrow> 'a state" where
  "timing ops warmup n warmup_time t n_atom timestep pool s =
     report ops t n_atom timestep (timer_timeit n (warmup_phase warmup warmup_time pool s))"

subsection \<open>The script\<close>

text \<open>The state in which the model has just been built (lines 137 to 146).\<close>

definition built :: "'a event list \<Rightarrow> real \<Rightarrow> 'a state" where
  "built evs model_time =
     \<lparr>events = evs @ [BuildModel model_time], model = FromConfig, tmpfile = None,
      cursor = 0, prof_step = 0, failed = None\<rparr>"

text \<open>Lines 148 to 234: everything after the model is built.\<close>

definition benchmark :: "args \<Rightarrow> 'a env \<Rightarrow> string \<Rightarrow> 'a frame list \<Rightarrow> nat \<Rightarrow> 'a state \<Rightarrow> 'a state" where
  "benchmark a env d datas n_atom s =
     (let s = prepare_model (arg_no_compile a) d (env_compile_time env) s in
      case warmup_depth (env_config env) of
        Inl e \<Rightarrow> raise e s
      | Inr warmup \<Rightarrow>
          (case arg_profile a of
             Some path \<Rightarrow> tracing path d warmup (arg_n a) datas s
           | None \<Rightarrow>
               timing (env_float env) warmup (arg_n a) (env_warmup_time env) (env_trim_time env)
                 n_atom (arg_timestep a) datas s))"

text \<open>
  \<^verbatim>\<open>main\<close>: the actions of the run, in order, and the exception that ended it (\<open>None\<close> for
  a normal return).
\<close>

definition main :: "args \<Rightarrow> 'a env \<Rightarrow> 'a event list \<times> error option" where
  "main a env =
     (let d = select_device a env;
          evs = [PrintUsingDevice d, PrintDatasetLoaded (env_dataset_time env)]
      in case frame_sampler (env_randperm env) (env_config env) (env_dataset env) (arg_n_data a) of
           Inl e \<Rightarrow> (evs, Some e)
         | Inr (datas, n_atom) \<Rightarrow>
             (let evs = evs @ [PrintFrameStatistics (length (env_dataset env)) (arg_n_data a) n_atom]
              in if arg_n a = 0 then (evs @ [PrintQuit], None)
                 else
                   (let s = benchmark a env d datas n_atom (built evs (env_model_time env))
                    in (events s, failed s))))"

text \<open>
  The calls made before the sampler's own checks may raise: the device constructor on
  an invalid name (lines 78 to 81, before anything is printed), the loading of the
  configuration and of the dataset (lines 85 to 92, after the device is printed), and
  the seeding of the generator, the permutation and the loading of the frames onto the
  device (lines 95 to 100, after the dataset is reported). \<open>main\<close> above is the run in
  which they return; a run in which one of them raises ends there with its exception.
\<close>

datatype setup_outcome = SetupReturns | DeviceRaises error | LoadingRaises error | SamplingRaises error

definition main_with_setup :: "setup_outcome \<Rightarrow> args \<Rightarrow> 'a env \<Rightarrow> 'a event list \<times> error option" where
  "main_with_setup su a env =
     (case su of
        SetupReturns \<Rightarrow> main a env
      | DeviceRaises e \<Rightarrow> ([], Some e)
      | LoadingRaises e \<Rightarrow> ([PrintUsingDevice (select_device a env)], Some e)
      | SamplingRaises e \<Rightarrow>
          ([PrintUsingDevice (select_device a env), PrintDatasetLoaded (env_dataset_time env)],
           Some e))"

text \<open>The state of \<^verbatim>\<open>main\<close> when the model has been prepared (line 168).\<close>

definition prepared :: "args \<Rightarrow> 'a env \<Rightarrow> nat \<Rightarrow> 'a state" where
  "prepared a env n_atom =
     prepare_model (arg_no_compile a) (select_device a env) (env_compile_time env)
       (built [PrintUsingDevice (select_device a env),
               PrintDatasetLoaded (env_dataset_time env),
               PrintFrameStatistics (length (env_dataset env)) (arg_n_data a) n_atom]
          (env_model_time env))"

section \<open>What a frame copy shares with the pool\<close>

text \<open>
  A frame is a Python dictionary whose values are tensors, and both are objects: the
  store holds the dictionaries (key to tensor address) and the tensors, with the next
  free address. The pool of \<^verbatim>\<open>itertools.cycle(datas)\<close> is the list of the addresses of
  the sampled dictionaries.
\<close>

type_synonym addr = nat

record 't heap =
  dicts :: "addr \<rightharpoonup> (string \<rightharpoonup> addr)"
  tensors :: "addr \<rightharpoonup> 't"
  next_addr :: addr

text \<open>
  \<^verbatim>\<open>d.copy()\<close> of a dictionary: a new dictionary object with the same entries, that is,
  with the addresses of the same tensor objects.
\<close>

definition dict_copy :: "addr \<Rightarrow> 't heap \<Rightarrow> (addr \<times> 't heap) option" where
  "dict_copy a h =
     (case dicts h a of
        None \<Rightarrow> None
      | Some d \<Rightarrow>
          Some (next_addr h, h\<lparr>dicts := (dicts h)(next_addr h \<mapsto> d), next_addr := next_addr h + 1\<rparr>))"

text \<open>\<^verbatim>\<open>next(datas).copy()\<close>: the address of the copy, the new cursor and the new store.\<close>

definition next_copy :: "addr list \<Rightarrow> nat \<Rightarrow> 't heap \<Rightarrow> (addr \<times> nat \<times> 't heap) option" where
  "next_copy pool c h =
     (case cycle_next pool c of
        None \<Rightarrow> None
      | Some (a, c') \<Rightarrow>
          (case dict_copy a h of
             None \<Rightarrow> None
           | Some (b, h') \<Rightarrow> Some (b, c', h')))"

text \<open>
  What a model may do to the dictionary it is handed: bind a key to a new tensor
  (\<^verbatim>\<open>d[k] = v\<close>), delete a key (\<^verbatim>\<open>del d[k]\<close>), or write into the tensor object stored
  under a key (\<^verbatim>\<open>d[k].copy_(v)\<close>). A mutation that names a missing key changes nothing.
\<close>

datatype 't mutation = SetItem string 't | DelItem string | WriteInPlace string 't

fun mutate :: "addr \<Rightarrow> 't mutation \<Rightarrow> 't heap \<Rightarrow> 't heap" where
  "mutate b (SetItem k v) h =
     (case dicts h b of
        None \<Rightarrow> h
      | Some d \<Rightarrow>
          h\<lparr>dicts := (dicts h)(b \<mapsto> d(k \<mapsto> next_addr h)),
            tensors := (tensors h)(next_addr h \<mapsto> v),
            next_addr := next_addr h + 1\<rparr>)"
| "mutate b (DelItem k) h =
     (case dicts h b of
        None \<Rightarrow> h
      | Some d \<Rightarrow> h\<lparr>dicts := (dicts h)(b \<mapsto> d(k := None))\<rparr>)"
| "mutate b (WriteInPlace k v) h =
     (case dicts h b of
        None \<Rightarrow> h
      | Some d \<Rightarrow>
          (case d k of
             None \<Rightarrow> h
           | Some t \<Rightarrow> h\<lparr>tensors := (tensors h)(t \<mapsto> v)\<rparr>))"

fun in_place :: "'t mutation \<Rightarrow> bool" where
  "in_place (WriteInPlace k v) = True"
| "in_place _ = False"

text \<open>
  One \<^verbatim>\<open>model(next(datas).copy())\<close>, the model performing the mutations \<open>ms\<close> on its
  argument; the state is the cursor with the store.
\<close>

definition model_call ::
  "addr list \<Rightarrow> 't mutation list \<Rightarrow> nat \<times> 't heap \<Rightarrow> (nat \<times> 't heap) option" where
  "model_call pool ms s =
     (case next_copy pool (fst s) (snd s) of
        None \<Rightarrow> None
      | Some (b, c', h') \<Rightarrow> Some (c', fold (mutate b) ms h'))"

text \<open>A sequence of calls, one list of mutations for each.\<close>

fun run_calls ::
  "addr list \<Rightarrow> 't mutation list list \<Rightarrow> nat \<times> 't heap \<Rightarrow> (nat \<times> 't heap) option" where
  "run_calls pool [] s = Some s"
| "run_calls pool (ms # mss) s =
     (case model_call pool ms s of
        None \<Rightarrow> None
      | Some s' \<Rightarrow> run_calls pool mss s')"

text \<open>What a reader of the dictionary at an address sees: each key with its tensor value.\<close>

definition frame_view :: "'t heap \<Rightarrow> addr \<Rightarrow> (string \<rightharpoonup> 't) option" where
  "frame_view h a =
     (case dicts h a of
        None \<Rightarrow> None
      | Some d \<Rightarrow> Some (\<lambda>k. case d k of None \<Rightarrow> None | Some t \<Rightarrow> tensors h t))"

text \<open>
  A pool is well formed in a store when its frames are allocated dictionaries whose
  tensors are allocated.
\<close>

definition pool_ok :: "addr list \<Rightarrow> 't heap \<Rightarrow> bool" where
  "pool_ok pool h =
     (\<forall>a \<in> set pool. a < next_addr h \<and>
        (\<exists>d. dicts h a = Some d \<and> (\<forall>k t. d k = Some t \<longrightarrow> t < next_addr h)))"

text \<open>\<^verbatim>\<open>d[k]\<close> for the dictionary at an address, \<open>None\<close> when the key is absent.\<close>

definition read_key :: "'t heap \<Rightarrow> addr \<Rightarrow> string \<Rightarrow> 't option" where
  "read_key h a k = (case frame_view h a of None \<Rightarrow> None | Some v \<Rightarrow> v k)"

text \<open>What \<^verbatim>\<open>next(datas).copy()[k]\<close> reads in a state of cursor and store.\<close>

definition next_read :: "addr list \<Rightarrow> string \<Rightarrow> nat \<times> 't heap \<Rightarrow> 't option option" where
  "next_read pool k s =
     (case next_copy pool (fst s) (snd s) of
        None \<Rightarrow> None
      | Some (b, c, h) \<Rightarrow> Some (read_key h b k))"

text \<open>
  Two stores agree below an address \<open>N\<close>: the later one has the same dictionaries
  there and, when \<open>values\<close> is set, the same tensor values.
\<close>

definition keeps :: "addr \<Rightarrow> bool \<Rightarrow> 't heap \<Rightarrow> 't heap \<Rightarrow> bool" where
  "keeps N values h h' =
     (N \<le> next_addr h \<and> next_addr h \<le> next_addr h' \<and>
      (\<forall>a < N. dicts h' a = dicts h a) \<and>
      (values \<longrightarrow> (\<forall>t < N. tensors h' t = tensors h t)))"

section \<open>Predicates on actions\<close>

fun is_invoke :: "'a event \<Rightarrow> bool" where
  "is_invoke (Invoke m d) = True"
| "is_invoke _ = False"

fun is_export :: "'a event \<Rightarrow> bool" where
  "is_export (ExportTrace p) = True"
| "is_export _ = False"

text \<open>The actions of timing mode that carry or produce the scalar time figure.\<close>

fun is_timing_result :: "'a event \<Rightarrow> bool" where
  "is_timing_result (TimerTimeit m n) = True"
| "is_timing_result (PrintAverageCall t) = True"
| "is_timing_result (PrintPerAtom t) = True"
| "is_timing_result (PrintNsDay dt v) = True"
| "is_timing_result _ = False"

text \<open>The transforms of the compiled path.\<close>

fun is_jit :: "'a event \<Rightarrow> bool" where
  "is_jit JitScript = True"
| "is_jit CompileForDeploy = True"
| "is_jit (JitSave m) = True"
| "is_jit (JitLoad d) = True"
| "is_jit JitFreeze = True"
| "is_jit _ = False"

text \<open>The actions up to the dataset diagnostics and the quit message.\<close>

fun is_diagnostic :: "'a event \<Rightarrow> bool" where
  "is_diagnostic (PrintUsingDevice d) = True"
| "is_diagnostic (PrintDatasetLoaded t) = True"
| "is_diagnostic (PrintFrameStatistics N k n_atom) = True"
| "is_diagnostic PrintQuit = True"
| "is_diagnostic _ = False"

section \<open>Double arithmetic\<close>

text \<open>
  Python floats are IEEE 754 binary64 numbers, and every operation returns the exact
  result rounded to the nearest double, ties to the even one.
\<close>

text \<open>The integer nearest to a real number, the even one of two that are equally near.\<close>

definition round_half_even :: "real \<Rightarrow> int" where
  "round_half_even x =
     (let f = \<lfloor>x\<rfloor>; r = x - of_int f
      in if r < 1 / 2 then f
         else if 1 / 2 < r then f + 1
         else if even f then f else f + 1)"

text \<open>
  The double nearest to a real number. Doubles with the exponent \<open>e\<close> of the number are
  spaced \<open>2 powi (e - 52)\<close> apart, those below the normal range as the smallest normal
  ones; a result of magnitude \<open>2 ^ 1024\<close> is out of range and becomes an infinity.
\<close>

definition round_double :: "real \<Rightarrow> pyfloat" where
  "round_double x =
     (if x = 0 then Finite 0
      else
        (let e = max \<lfloor>log 2 \<bar>x\<bar>\<rfloor> (- 1022);
             ulp = 2 powi (e - 52);
             y = of_int (round_half_even (x / ulp)) * ulp
         in if 2 ^ 1024 \<le> \<bar>y\<bar> then (if 0 < x then PosInf else NegInf) else Finite y))"

text \<open>The sign of a float that is not a NaN.\<close>

fun negative :: "pyfloat \<Rightarrow> bool" where
  "negative (Finite a) = (a < 0)"
| "negative NegInf = True"
| "negative _ = False"

definition signed_inf :: "bool \<Rightarrow> pyfloat" where
  "signed_inf neg = (if neg then NegInf else PosInf)"

text \<open>
  Multiplication and division of doubles: the exact result rounded, an infinity of the
  right sign when an operand is infinite, a NaN for a NaN operand and for the undefined
  cases. Division by zero does not occur (Python raises before) and is given as NaN.
\<close>

fun double_mul :: "pyfloat \<Rightarrow> pyfloat \<Rightarrow> pyfloat" where
  "double_mul (Finite a) (Finite b) = round_double (a * b)"
| "double_mul x y =
     (if x = NaN \<or> y = NaN \<or> x = Finite 0 \<or> y = Finite 0 then NaN
      else signed_inf (negative x \<noteq> negative y))"

fun double_div :: "pyfloat \<Rightarrow> pyfloat \<Rightarrow> pyfloat" where
  "double_div (Finite a) (Finite b) = (if b = 0 then NaN else round_double (a / b))"
| "double_div x (Finite b) =
     (if x = NaN \<or> b = 0 then NaN else signed_inf (negative x \<noteq> (b < 0)))"
| "double_div (Finite a) y = (if y = NaN then NaN else Finite 0)"
| "double_div x y = NaN"

text \<open>
  The arithmetic of Python floats. A decimal literal denotes the nearest double, and an
  integer is converted to the nearest double (an integer beyond the range of the doubles,
  which no atom count is, would raise instead).
\<close>

definition ieee :: float_ops where
  "ieee = \<lparr>fl_lit = round_double, fl_of_nat = (\<lambda>n. round_double (real n)),
           fl_mul = double_mul, fl_div = double_div\<rparr>"

section \<open>Example inputs\<close>

text \<open>Concrete inputs on which the theorems below are instantiated.\<close>

definition ex_perm :: "int \<Rightarrow> nat \<Rightarrow> nat list" where
  "ex_perm s N = rev [0..<N]"

definition ex_frame :: "nat \<Rightarrow> nat frame" where
  "ex_frame k = \<lparr>pos = [0..<k], edge_index = []\<rparr>"

definition ex_args :: "int \<Rightarrow> int \<Rightarrow> string option \<Rightarrow> args" where
  "ex_args n n_data profile =
     \<lparr>arg_config = ''config.yaml'', arg_profile = profile, arg_device = None, arg_n = n,
      arg_n_data = n_data, arg_timestep = Finite 1, arg_no_compile = False, arg_verbose = ''error''\<rparr>"

definition ex_env :: "config \<Rightarrow> nat frame list \<Rightarrow> nat env" where
  "ex_env cfg ds =
     \<lparr>env_cuda_available = False, env_config = cfg, env_dataset = ds, env_randperm = ex_perm,
      env_dataset_time = 0, env_model_time = 0, env_compile_time = 0, env_warmup_time = 0,
      env_trim_time = Finite 1, env_float = ieee\<rparr>"

text \<open>A store with a pool of two frames, at the addresses 0 and 1.\<close>

definition ex_heap :: "nat heap" where
  "ex_heap =
     \<lparr>dicts = [0 \<mapsto> [''pos'' \<mapsto> 2], 1 \<mapsto> [''pos'' \<mapsto> 3]],
      tensors = [2 \<mapsto> 5, 3 \<mapsto> 6],
      next_addr = 4\<rparr>"

section \<open>The seed of the frame sampler\<close>

text \<open>
  Claim C10. The seed of the sampling generator is the value of \<^verbatim>\<open>dataset_seed\<close> when
  the configuration has that key, otherwise the value of \<^verbatim>\<open>seed\<close> when it has that key,
  otherwise 12345. The sampled indices are the slice of the permutation for that seed and
  the dataset length, so two configurations that resolve to the same seed select the
  same indices and, over the same dataset, the same frames in the same order.
\<close>

theorem seed_fallback_chain:
  "dataset_seed_of cfg =
     (case cfg ''dataset_seed'' of
        Some v \<Rightarrow> v
      | None \<Rightarrow> (case cfg ''seed'' of Some v \<Rightarrow> v | None \<Rightarrow> 12345))
   \<and> sampled_indices rp cfg N n_data = slice_to n_data (rp (dataset_seed_of cfg) N)
   \<and> (dataset_seed_of cfg = dataset_seed_of cfg' \<longrightarrow>
        sampled_indices rp cfg N n_data = sampled_indices rp cfg' N n_data \<and>
        frame_sampler rp cfg ds n_data = frame_sampler rp cfg' ds n_data)"
  by (simp add: dataset_seed_of_def config_get_def sampled_indices_def frame_sampler_def
      split: option.splits)

theorem seed_fallback_chain_witness:
  "dataset_seed_of [''seed'' \<mapsto> 7] = dataset_seed_of [''dataset_seed'' \<mapsto> 7, ''seed'' \<mapsto> 3]
   \<and> sampled_indices (\<lambda>s N. rotate (nat s) [0..<N]) [''seed'' \<mapsto> 7] 3 2
       = sampled_indices (\<lambda>s N. rotate (nat s) [0..<N]) [''dataset_seed'' \<mapsto> 7, ''seed'' \<mapsto> 3] 3 2"
proof -
  have h: "dataset_seed_of [''seed'' \<mapsto> 7] = dataset_seed_of [''dataset_seed'' \<mapsto> 7, ''seed'' \<mapsto> 3]"
    by (simp add: dataset_seed_of_def config_get_def)
  from seed_fallback_chain [of "[''seed'' \<mapsto> 7]" "\<lambda>s N. rotate (nat s) [0..<N]" 3 2
      "[''dataset_seed'' \<mapsto> 7, ''seed'' \<mapsto> 3]" "[]"] h
  show ?thesis by blast
qed

section \<open>The derived metrics\<close>

lemma round_half_even_near:
  assumes "\<bar>x - of_int m\<bar> < 1 / 2"
  shows "round_half_even x = m"
proof -
  have lo: "of_int m - 1 / 2 < x" and hi: "x < of_int m + 1 / 2" using assms by linarith+
  show ?thesis
  proof (cases "of_int m \<le> x")
    case True
    then have f: "\<lfloor>x\<rfloor> = m" using hi by linarith
    then show ?thesis using hi by (simp add: round_half_even_def Let_def)
  next
    case False
    then have f: "\<lfloor>x\<rfloor> = m - 1" using lo by linarith
    have "1 / 2 < x - of_int (m - 1)" using lo by simp
    then show ?thesis using f by (simp add: round_half_even_def Let_def)
  qed
qed

lemma floor_log2:
  assumes "2 powi e \<le> \<bar>x\<bar>" and "\<bar>x\<bar> < 2 powi (e + 1)"
  shows "\<lfloor>log 2 \<bar>x\<bar>\<rfloor> = e"
proof -
  have pos: "0 < \<bar>x\<bar>"
  proof -
    have "(0::real) < 2 powi e" by simp
    then show ?thesis using assms(1) by linarith
  qed
  have a: "(2::real) powr (of_int e) = 2 powi e" by (simp add: powr_real_of_int')
  have b: "(2::real) powr (of_int e + 1) = 2 powi (e + 1)"
    using powr_real_of_int' [of 2 "e + 1"] by simp
  show ?thesis
    using floor_log_eq_powr_iff [of "\<bar>x\<bar>" 2 e] pos assms a b by simp
qed

lemma round_double_eval:
  assumes lo: "2 powi e \<le> \<bar>x\<bar>" and hi: "\<bar>x\<bar> < 2 powi (e + 1)"
    and e: "- 1022 \<le> e"
    and m: "\<bar>x / 2 powi (e - 52) - of_int m\<bar> < 1 / 2"
    and fin: "\<bar>of_int m * 2 powi (e - 52)\<bar> < (2::real) ^ 1024"
  shows "round_double x = Finite (of_int m * 2 powi (e - 52))"
proof -
  have nz: "x \<noteq> 0"
  proof
    assume "x = 0"
    then have "(2::real) powi e \<le> 0" using lo by simp
    moreover have "(0::real) < 2 powi e" by simp
    ultimately show False by linarith
  qed
  have ex: "max \<lfloor>log 2 \<bar>x\<bar>\<rfloor> (- 1022) = e"
    using floor_log2 [OF lo hi] e by simp
  have r: "round_half_even (x / 2 powi (e - 52)) = m"
    using round_half_even_near [OF m] .
  show ?thesis
    using nz fin by (simp add: round_double_def ex r Let_def)
qed

lemma double_86400: "round_double (86400) = Finite (86400)"
proof -
  have "round_double (86400) = Finite (of_int 5937362789990400 * 2 powi (16 - 52))"
    by (rule round_double_eval) (simp_all add: power_int_def power_one_over)
  then show ?thesis by (simp add: power_int_def power_one_over)
qed

lemma double_100: "round_double (100) = Finite (100)"
proof -
  have "round_double (100) = Finite (of_int 7036874417766400 * 2 powi (6 - 52))"
    by (rule round_double_eval) (simp_all add: power_int_def power_one_over)
  then show ?thesis by (simp add: power_int_def power_one_over)
qed

lemma double_28800: "round_double (28800) = Finite (28800)"
proof -
  have "round_double (28800) = Finite (of_int 7916483719987200 * 2 powi (14 - 52))"
    by (rule round_double_eval) (simp_all add: power_int_def power_one_over)
  then show ?thesis by (simp add: power_int_def power_one_over)
qed

lemma double_micro: "round_double (1 / 1000000) = Finite (4722366482869645 / 2 ^ 72)"
proof -
  have "round_double (1 / 1000000) = Finite (of_int 4722366482869645 * 2 powi (- 20 - 52))"
    by (rule round_double_eval) (simp_all add: power_int_def power_one_over)
  then show ?thesis by (simp add: power_int_def power_one_over)
qed

lemma double_centi: "round_double (1 / 100) = Finite (5764607523034235 / 2 ^ 59)"
proof -
  have "round_double (1 / 100) = Finite (of_int 5764607523034235 * 2 powi (- 7 - 52))"
    by (rule round_double_eval) (simp_all add: power_int_def power_one_over)
  then show ?thesis by (simp add: power_int_def power_one_over)
qed

lemma double_0864: "round_double (864 / 10000) = Finite (6225776124876974 / 2 ^ 56)"
proof -
  have "round_double (864 / 10000) = Finite (of_int 6225776124876974 * 2 powi (- 4 - 52))"
    by (rule round_double_eval) (simp_all add: power_int_def power_one_over)
  then show ?thesis by (simp add: power_int_def power_one_over)
qed

lemma double_86400_micro: "round_double (86400 * (4722366482869645 / 2 ^ 72)) = Finite (6225776124876973 / 2 ^ 56)"
proof -
  have "round_double (86400 * (4722366482869645 / 2 ^ 72)) = Finite (of_int 6225776124876973 * 2 powi (- 4 - 52))"
    by (rule round_double_eval) (simp_all add: power_int_def power_one_over)
  then show ?thesis by (simp add: power_int_def power_one_over)
qed

lemma double_28800_micro: "round_double (28800 * (4722366482869645 / 2 ^ 72)) = Finite (8301034833169298 / 2 ^ 58)"
proof -
  have "round_double (28800 * (4722366482869645 / 2 ^ 72)) = Finite (of_int 8301034833169298 * 2 powi (- 6 - 52))"
    by (rule round_double_eval) (simp_all add: power_int_def power_one_over)
  then show ?thesis by (simp add: power_int_def power_one_over)
qed

lemma double_third: "round_double (6225776124876973 / 2 ^ 56 / 3) = Finite (8301034833169297 / 2 ^ 58)"
proof -
  have "round_double (6225776124876973 / 2 ^ 56 / 3) = Finite (of_int 8301034833169297 * 2 powi (- 6 - 52))"
    by (rule round_double_eval) (simp_all add: power_int_def power_one_over)
  then show ?thesis by (simp add: power_int_def power_one_over)
qed

lemma ieee_ops:
  "fl_lit ieee = round_double"
  "fl_of_nat ieee = (\<lambda>n. round_double (real n))"
  "fl_mul ieee = double_mul"
  "fl_div ieee = double_div"
  by (simp_all add: ieee_def)

lemma double_steps:
  "double_div (Finite 86400) (Finite 1) = Finite 86400"
  "double_div (Finite 86400) (Finite 3) = Finite 28800"
  "double_mul (Finite 86400) (Finite 1) = Finite 86400"
  "double_mul (Finite 28800) (Finite 1) = Finite 28800"
  by (simp_all add: double_86400 double_28800)

lemma double_products:
  "double_mul (Finite 86400) (Finite (4722366482869645 / 2 ^ 72))
     = Finite (6225776124876973 / 2 ^ 56)"
  "double_mul (Finite 28800) (Finite (4722366482869645 / 2 ^ 72))
     = Finite (8301034833169298 / 2 ^ 58)"
  "double_div (Finite (6225776124876973 / 2 ^ 56)) (Finite 3)
     = Finite (8301034833169297 / 2 ^ 58)"
  by (simp_all only: double_mul.simps double_div.simps double_86400_micro double_28800_micro
      double_third) simp_all

lemma ns_day_unit: "ns_day ieee (Finite 1) (Finite 1) = Inr (Finite (6225776124876973 / 2 ^ 56))"
  unfolding ns_day_def ieee_ops double_86400 double_micro double_steps double_products by simp

lemma ns_day_three: "ns_day ieee (Finite 3) (Finite 1) = Inr (Finite (8301034833169298 / 2 ^ 58))"
  unfolding ns_day_def ieee_ops double_86400 double_micro double_steps double_products by simp

lemma spec_formula_three:
  "fl_div ieee (fl_mul ieee (fl_mul ieee (fl_lit ieee 86400) (Finite 1)) (fl_lit ieee (1 / 1000000)))
     (Finite 3) = Finite (8301034833169297 / 2 ^ 58)"
  unfolding ieee_ops double_86400 double_micro double_steps double_products by simp

lemma literal_0864: "fl_lit ieee (864 / 10000) = Finite (6225776124876974 / 2 ^ 56)"
  unfolding ieee_ops double_0864 by simp

text \<open>
  Claim C4, as amended. The derived metrics are functions of the representative time,
  the atom count and the timestep in double arithmetic: the per-atom time is the
  quotient \<open>t / A\<close>, and the simulated nanoseconds per day are \<open>((86400 / t) \<times> \<Delta>) \<times> 1e-6\<close>,
  each operation rounded to a double, the divisions being defined for a non-zero atom
  count and a non-zero time. For \<open>t = 1.0\<close>, \<open>A = 100\<close> and \<open>\<Delta> = 1.0\<close> the per-atom time
  is the double 0.01 and the nanoseconds per day are 0.08639999999999999, the double
  next below the double 0.0864.
\<close>

theorem derived_metrics:
  "(n_atom \<noteq> 0 \<longrightarrow> per_atom_time ops t n_atom = Inr (fl_div ops t (fl_of_nat ops n_atom)))
   \<and> (t \<noteq> Finite 0 \<longrightarrow>
        ns_day ops t dt =
          Inr (fl_mul ops (fl_mul ops (fl_div ops (fl_lit ops 86400) t) dt)
                 (fl_lit ops (1 / 1000000))))
   \<and> per_atom_time ieee (Finite 1) 100 = Inr (fl_lit ieee (1 / 100))
   \<and> ns_day ieee (Finite 1) (Finite 1) = Inr (Finite (6225776124876973 / 2 ^ 56))
   \<and> fl_lit ieee (864 / 10000) = Finite (6225776124876973 / 2 ^ 56 + 1 / 2 ^ 56)"
proof -
  have 1: "per_atom_time ieee (Finite 1) 100 = Inr (fl_lit ieee (1 / 100))"
    by (simp add: per_atom_time_def ieee_def double_100 double_centi)
  have 2: "fl_lit ieee (864 / 10000) = Finite (6225776124876973 / 2 ^ 56 + 1 / 2 ^ 56)"
    unfolding literal_0864 by simp
  show ?thesis using 1 2 ns_day_unit by (simp add: per_atom_time_def ns_day_def)
qed

theorem derived_metrics_witness:
  "(100::nat) \<noteq> 0 \<and> Finite 1 \<noteq> Finite 0
   \<and> per_atom_time ieee (Finite 1) 100 = Inr (fl_div ieee (Finite 1) (fl_of_nat ieee 100))
   \<and> ns_day ieee (Finite 1) (Finite 1) =
        Inr (fl_mul ieee (fl_mul ieee (fl_div ieee (fl_lit ieee 86400) (Finite 1)) (Finite 1))
               (fl_lit ieee (1 / 1000000)))"
proof -
  have a: "(100::nat) \<noteq> 0" by simp
  have b: "Finite 1 \<noteq> Finite 0" by simp
  note t = derived_metrics [of 100 ieee "Finite 1" "Finite 1"]
  have 1: "per_atom_time ieee (Finite 1) 100 = Inr (fl_div ieee (Finite 1) (fl_of_nat ieee 100))"
    using t a by blast
  have 2: "ns_day ieee (Finite 1) (Finite 1) =
        Inr (fl_mul ieee (fl_mul ieee (fl_div ieee (fl_lit ieee 86400) (Finite 1)) (Finite 1))
               (fl_lit ieee (1 / 1000000)))"
    using t b by blast
  show ?thesis using a b 1 2 by blast
qed

text \<open>
  The claim C4 as stated fails in double arithmetic. At its own example the nanoseconds
  per day are not the double 0.0864; and the formula \<open>86400 \<times> \<Delta> \<times> 1e-6 / t\<close> is not what
  the script computes: at \<open>t = 3.0\<close>, \<open>\<Delta> = 1.0\<close> it gives another double.
\<close>

theorem ns_day_rounding_counterexample:
  "ns_day ieee (Finite 1) (Finite 1) \<noteq> Inr (fl_lit ieee (864 / 10000))
   \<and> ns_day ieee (Finite 3) (Finite 1)
       \<noteq> Inr (fl_div ieee
                (fl_mul ieee (fl_mul ieee (fl_lit ieee 86400) (Finite 1)) (fl_lit ieee (1 / 1000000)))
                (Finite 3))"
proof -
  show ?thesis unfolding ns_day_unit ns_day_three spec_formula_three literal_0864 by simp
qed

section \<open>The frame sampler\<close>

lemma load_frames_in_range:
  "\<forall>i \<in> set idxs. i < length ds \<Longrightarrow> load_frames ds idxs = Inr (map (\<lambda>i. ds ! i) idxs)"
  by (induction idxs) auto

lemma perm_set:
  assumes "sort xs = [0..<N]"
  shows "set xs = {0..<N}" and "length xs = N"
proof -
  have "set (sort xs) = {0..<N}" using assms by simp
  then show "set xs = {0..<N}" by simp
  have "length (sort xs) = N" using assms by simp
  then show "length xs = N" by simp
qed

lemma main_sampler_failure:
  "frame_sampler (env_randperm env) (env_config env) (env_dataset env) (arg_n_data a) = Inl e \<Longrightarrow>
   main a env = ([PrintUsingDevice (select_device a env), PrintDatasetLoaded (env_dataset_time env)], Some e)"
  by (simp add: main_def)


text \<open>
  Claim C1, as amended. For a dataset of size \<open>N\<close> and a requested sample count
  \<open>n_data \<ge> 0\<close>, the sampler selects the first \<open>min n_data N\<close> elements of the seeded
  permutation of the indices below \<open>N\<close> and loads the frames at these indices; a request
  with \<open>n_data > N\<close> is not rejected and selects all \<open>N\<close> indices. Whenever the sampler
  fails, the run ends with that error before the model is built.
\<close>

theorem sampler_prefix_of_permutation:
  assumes perm: "sort (rp (dataset_seed_of cfg) (length ds)) = [0..<length ds]"
    and nn: "0 \<le> n_data"
  shows "sampled_indices rp cfg (length ds) n_data
           = take (min (nat n_data) (length ds)) (rp (dataset_seed_of cfg) (length ds))
       \<and> length (sampled_indices rp cfg (length ds) n_data) = min (nat n_data) (length ds)
       \<and> load_frames ds (sampled_indices rp cfg (length ds) n_data)
           = Inr (map (\<lambda>i. ds ! i) (sampled_indices rp cfg (length ds) n_data))
       \<and> (int (length ds) < n_data \<longrightarrow>
            sampled_indices rp cfg (length ds) n_data = rp (dataset_seed_of cfg) (length ds))
       \<and> (frame_sampler (env_randperm env) (env_config env) (env_dataset env) (arg_n_data a) = Inl e \<longrightarrow>
            main a env = ([PrintUsingDevice (select_device a env),
                           PrintDatasetLoaded (env_dataset_time env)], Some e))"
proof -
  let ?p = "rp (dataset_seed_of cfg) (length ds)"
  let ?idx = "sampled_indices rp cfg (length ds) n_data"
  have len: "length ?p = length ds" and st: "set ?p = {0..<length ds}"
    using perm_set [OF perm] by simp_all
  have idx: "?idx = take (nat n_data) ?p"
    using nn by (simp add: sampled_indices_def slice_to_def)
  have a: "?idx = take (min (nat n_data) (length ds)) ?p"
    using idx len by (simp add: min_def)
  have b: "length ?idx = min (nat n_data) (length ds)"
    using idx len by simp
  have "set ?idx \<subseteq> set ?p" using idx by (simp add: set_take_subset)
  then have "\<forall>i \<in> set ?idx. i < length ds" using st by auto
  then have c: "load_frames ds ?idx = Inr (map (\<lambda>i. ds ! i) ?idx)"
    by (rule load_frames_in_range)
  have d: "int (length ds) < n_data \<longrightarrow> ?idx = ?p"
    using idx len by auto
  show ?thesis using a b c d main_sampler_failure by blast
qed

theorem sampler_prefix_of_permutation_witness:
  "sort (ex_perm (dataset_seed_of Map.empty) (length [ex_frame 1, ex_frame 2])) = [0..<length [ex_frame 1, ex_frame 2]]
   \<and> (0::int) \<le> 5
   \<and> int (length [ex_frame 1, ex_frame 2]) < 5
   \<and> sampled_indices ex_perm Map.empty (length [ex_frame 1, ex_frame 2]) 5 = [1, 0]
   \<and> load_frames [ex_frame 1, ex_frame 2] (sampled_indices ex_perm Map.empty (length [ex_frame 1, ex_frame 2]) 5)
        = Inr [ex_frame 2, ex_frame 1]
   \<and> frame_sampler (env_randperm (ex_env Map.empty [ex_frame 1, ex_frame 2]))
        (env_config (ex_env Map.empty [ex_frame 1, ex_frame 2]))
        (env_dataset (ex_env Map.empty [ex_frame 1, ex_frame 2]))
        (arg_n_data (ex_args 3 5 None)) = Inl NotImplementedError
   \<and> main (ex_args 3 5 None) (ex_env Map.empty [ex_frame 1, ex_frame 2])
        = ([PrintUsingDevice ''cpu'', PrintDatasetLoaded 0], Some NotImplementedError)"
proof -
  let ?ds = "[ex_frame 1, ex_frame 2]"
  have h: "sort (ex_perm (dataset_seed_of Map.empty) (length ?ds)) = [0..<length ?ds]"
    by (simp add: ex_perm_def upt_rec)
  have n: "(0::int) \<le> 5" by simp
  have p: "ex_perm (dataset_seed_of Map.empty) (length ?ds) = [1, 0]"
    by (simp add: ex_perm_def upt_rec)
  have f: "frame_sampler (env_randperm (ex_env Map.empty ?ds)) (env_config (ex_env Map.empty ?ds))
        (env_dataset (ex_env Map.empty ?ds)) (arg_n_data (ex_args 3 5 None)) = Inl NotImplementedError"
    by (simp add: frame_sampler_def sampled_indices_def slice_to_def ex_perm_def ex_frame_def
        ex_env_def ex_args_def dataset_seed_of_def config_get_def n_atoms_def upt_rec)
  have d: "select_device (ex_args 3 5 None) (ex_env Map.empty ?ds) = ''cpu''"
    "env_dataset_time (ex_env Map.empty ?ds) = 0"
    by (simp_all add: select_device_def ex_args_def ex_env_def)
  from sampler_prefix_of_permutation [where rp = ex_perm and cfg = Map.empty and ds = ?ds
      and n_data = 5 and a = "ex_args 3 5 None" and env = "ex_env Map.empty ?ds"
      and e = NotImplementedError, OF h n] p h n f d
  show ?thesis by simp
qed


text \<open>
  The claim C1 as stated fails: on a dataset of one frame the request \<open>n_data = 2\<close>
  raises no error and yields a sample.
\<close>

theorem oversized_request_counterexample:
  "int (length [ex_frame 1]) < 2
   \<and> frame_sampler ex_perm Map.empty [ex_frame 1] 2 = Inr ([ex_frame 1], 1)"
  by (simp add: frame_sampler_def sampled_indices_def slice_to_def ex_perm_def ex_frame_def
      dataset_seed_of_def config_get_def n_atoms_def)

text \<open>
  Claim C7. Once the sampled frames are loaded, the atom count of the first one is
  compared with that of every sampled frame: if some frame differs, the sampler fails
  with \<^verbatim>\<open>NotImplementedError\<close>; if all agree, that error is not raised, and a non-empty
  sample is returned with the common atom count.
\<close>

theorem variable_atom_count_rejected:
  assumes "load_frames ds (sampled_indices rp cfg (length ds) n_data) = Inr datas"
  shows "((\<exists>d \<in> set datas. n_atoms d \<noteq> n_atoms (hd datas)) \<longrightarrow>
            frame_sampler rp cfg ds n_data = Inl NotImplementedError)
       \<and> ((\<forall>d \<in> set datas. n_atoms d = n_atoms (hd datas)) \<longrightarrow>
            frame_sampler rp cfg ds n_data \<noteq> Inl NotImplementedError)
       \<and> (datas \<noteq> [] \<and> (\<forall>d \<in> set datas. n_atoms d = n_atoms (hd datas)) \<longrightarrow>
            frame_sampler rp cfg ds n_data = Inr (datas, n_atoms (hd datas)))"
proof (cases datas)
  case Nil
  with assms show ?thesis by (simp add: frame_sampler_def)
next
  case (Cons d0 rest)
  with assms show ?thesis
    by (auto simp add: frame_sampler_def list_all_iff Let_def)
qed

theorem variable_atom_count_rejected_witness:
  "load_frames [ex_frame 1, ex_frame 2] (sampled_indices ex_perm Map.empty (length [ex_frame 1, ex_frame 2]) 2)
      = Inr [ex_frame 2, ex_frame 1]
   \<and> n_atoms (ex_frame 1) \<noteq> n_atoms (hd [ex_frame 2, ex_frame 1])
   \<and> frame_sampler ex_perm Map.empty [ex_frame 1, ex_frame 2] 2 = Inl NotImplementedError
   \<and> load_frames [ex_frame 3, ex_frame 3] (sampled_indices ex_perm Map.empty (length [ex_frame 3, ex_frame 3]) 2)
      = Inr [ex_frame 3, ex_frame 3]
   \<and> frame_sampler ex_perm Map.empty [ex_frame 3, ex_frame 3] 2 = Inr ([ex_frame 3, ex_frame 3], 3)"
proof -
  have l1: "load_frames [ex_frame 1, ex_frame 2] (sampled_indices ex_perm Map.empty (length [ex_frame 1, ex_frame 2]) 2)
      = Inr [ex_frame 2, ex_frame 1]"
    by (simp add: sampled_indices_def slice_to_def ex_perm_def dataset_seed_of_def config_get_def upt_rec)
  have d1: "\<exists>d \<in> set [ex_frame 2, ex_frame 1]. n_atoms d \<noteq> n_atoms (hd [ex_frame 2, ex_frame 1])"
    by (simp add: n_atoms_def ex_frame_def)
  have l2: "load_frames [ex_frame 3, ex_frame 3] (sampled_indices ex_perm Map.empty (length [ex_frame 3, ex_frame 3]) 2)
      = Inr [ex_frame 3, ex_frame 3]"
    by (simp add: sampled_indices_def slice_to_def ex_perm_def dataset_seed_of_def config_get_def upt_rec)
  have d2: "\<forall>d \<in> set [ex_frame 3, ex_frame 3]. n_atoms d = n_atoms (hd [ex_frame 3, ex_frame 3])"
    by simp
  have n3: "n_atoms (hd [ex_frame 3, ex_frame 3]) = 3"
    by (simp add: n_atoms_def ex_frame_def)
  have r1: "frame_sampler ex_perm Map.empty [ex_frame 1, ex_frame 2] 2 = Inl NotImplementedError"
    using variable_atom_count_rejected [OF l1] d1 by blast
  have ne: "[ex_frame 3, ex_frame 3] \<noteq> []" by simp
  have "frame_sampler ex_perm Map.empty [ex_frame 3, ex_frame 3] 2
          = Inr ([ex_frame 3, ex_frame 3], n_atoms (hd [ex_frame 3, ex_frame 3]))"
    using variable_atom_count_rejected [OF l2] d2 ne by blast
  then have r2: "frame_sampler ex_perm Map.empty [ex_frame 3, ex_frame 3] 2
          = Inr ([ex_frame 3, ex_frame 3], 3)"
    by (simp only: n3)
  have d1': "n_atoms (ex_frame 1) \<noteq> n_atoms (hd [ex_frame 2, ex_frame 1])"
    by (simp add: n_atoms_def ex_frame_def)
  show ?thesis using l1 d1' r1 l2 r2 by blast
qed

text \<open>
  Claim C8. Two runs over the same dataset, with the same permutation function of the
  library, configurations that give the same seed, and the same \<open>n_data\<close>, select the
  same sequence of indices and the same frames, whatever else differs between them.
\<close>

theorem frame_selection_deterministic:
  assumes "env_dataset env1 = env_dataset env2"
    and "env_randperm env1 = env_randperm env2"
    and "dataset_seed_of (env_config env1) = dataset_seed_of (env_config env2)"
    and "arg_n_data a1 = arg_n_data a2"
  shows "sampled_indices (env_randperm env1) (env_config env1) (length (env_dataset env1)) (arg_n_data a1)
           = sampled_indices (env_randperm env2) (env_config env2) (length (env_dataset env2)) (arg_n_data a2)
       \<and> frame_sampler (env_randperm env1) (env_config env1) (env_dataset env1) (arg_n_data a1)
           = frame_sampler (env_randperm env2) (env_config env2) (env_dataset env2) (arg_n_data a2)"
  using assms by (simp add: sampled_indices_def frame_sampler_def)

theorem frame_selection_deterministic_witness:
  "sampled_indices (env_randperm (ex_env [''seed'' \<mapsto> 5] [ex_frame 1, ex_frame 1, ex_frame 1]))
      (env_config (ex_env [''seed'' \<mapsto> 5] [ex_frame 1, ex_frame 1, ex_frame 1]))
      (length (env_dataset (ex_env [''seed'' \<mapsto> 5] [ex_frame 1, ex_frame 1, ex_frame 1])))
      (arg_n_data (ex_args 30 2 None))
   = sampled_indices (env_randperm (ex_env [''dataset_seed'' \<mapsto> 5, ''_jit_bailout_depth'' \<mapsto> 2] [ex_frame 1, ex_frame 1, ex_frame 1]))
      (env_config (ex_env [''dataset_seed'' \<mapsto> 5, ''_jit_bailout_depth'' \<mapsto> 2] [ex_frame 1, ex_frame 1, ex_frame 1]))
      (length (env_dataset (ex_env [''dataset_seed'' \<mapsto> 5, ''_jit_bailout_depth'' \<mapsto> 2] [ex_frame 1, ex_frame 1, ex_frame 1])))
      (arg_n_data (ex_args 0 2 (Some ''trace.json'')))"
proof -
  let ?e1 = "ex_env [''seed'' \<mapsto> 5] [ex_frame 1, ex_frame 1, ex_frame 1]"
  let ?e2 = "ex_env [''dataset_seed'' \<mapsto> 5, ''_jit_bailout_depth'' \<mapsto> 2] [ex_frame 1, ex_frame 1, ex_frame 1]"
  have 1: "env_dataset ?e1 = env_dataset ?e2" by (simp add: ex_env_def)
  have 2: "env_randperm ?e1 = env_randperm ?e2" by (simp add: ex_env_def)
  have 3: "dataset_seed_of (env_config ?e1) = dataset_seed_of (env_config ?e2)"
    by (simp add: ex_env_def dataset_seed_of_def config_get_def)
  have 4: "arg_n_data (ex_args 30 2 None) = arg_n_data (ex_args 0 2 (Some ''trace.json''))"
    by (simp add: ex_args_def)
  from frame_selection_deterministic [OF 1 2 3 4] show ?thesis by blast
qed

section \<open>Zero trials\<close>

text \<open>
  Claim C9, as amended. With \<open>n = 0\<close> every action of the run is one of the
  diagnostics: the model is not built, not warmed up, not traced, not timed and never
  called. The run returns normally exactly when the set-up calls return and the frame
  sampler succeeds; it then prints the dataset diagnostics and the quit message and
  stops. The sampler runs before the check of \<open>n\<close>, so a failure of the sampler, like a
  failure of the set-up, ends the run with its error before the diagnostics.
\<close>

theorem zero_trials_quit:
  assumes "arg_n a = 0"
  shows "list_all is_diagnostic (fst (main_with_setup su a env))
       \<and> (snd (main_with_setup su a env) = None \<longleftrightarrow>
            su = SetupReturns \<and>
            (\<exists>datas n_atom.
               frame_sampler (env_randperm env) (env_config env) (env_dataset env) (arg_n_data a)
                 = Inr (datas, n_atom)))
       \<and> (\<forall>e. su = SetupReturns \<and>
                frame_sampler (env_randperm env) (env_config env) (env_dataset env) (arg_n_data a)
                  = Inl e \<longrightarrow>
            main_with_setup su a env = ([PrintUsingDevice (select_device a env),
                                         PrintDatasetLoaded (env_dataset_time env)], Some e))
       \<and> (\<forall>datas n_atom. su = SetupReturns \<and>
            frame_sampler (env_randperm env) (env_config env) (env_dataset env) (arg_n_data a)
              = Inr (datas, n_atom) \<longrightarrow>
            main_with_setup su a env = ([PrintUsingDevice (select_device a env),
                           PrintDatasetLoaded (env_dataset_time env),
                           PrintFrameStatistics (length (env_dataset env)) (arg_n_data a) n_atom,
                           PrintQuit], None))"
proof (cases su)
  case SetupReturns
  show ?thesis
  proof (cases "frame_sampler (env_randperm env) (env_config env) (env_dataset env) (arg_n_data a)")
    case (Inl e)
    then show ?thesis using SetupReturns by (simp add: main_with_setup_def main_def)
  next
    case (Inr p)
    obtain datas n_atom where p: "p = (datas, n_atom)" by (cases p)
    with Inr assms SetupReturns show ?thesis by (simp add: main_with_setup_def main_def)
  qed
next
  case (DeviceRaises e)
  then show ?thesis by (simp add: main_with_setup_def)
next
  case (LoadingRaises e)
  then show ?thesis by (simp add: main_with_setup_def)
next
  case (SamplingRaises e)
  then show ?thesis by (simp add: main_with_setup_def)
qed

theorem zero_trials_quit_witness:
  "arg_n (ex_args 0 1 None) = 0
   \<and> frame_sampler (env_randperm (ex_env Map.empty [ex_frame 3])) (env_config (ex_env Map.empty [ex_frame 3]))
        (env_dataset (ex_env Map.empty [ex_frame 3])) (arg_n_data (ex_args 0 1 None)) = Inr ([ex_frame 3], 3)
   \<and> main_with_setup SetupReturns (ex_args 0 1 None) (ex_env Map.empty [ex_frame 3])
       = ([PrintUsingDevice ''cpu'', PrintDatasetLoaded 0, PrintFrameStatistics 1 1 3, PrintQuit], None)"
proof -
  let ?a = "ex_args 0 1 None" and ?env = "ex_env Map.empty [ex_frame 3]"
  have z: "arg_n ?a = 0" by (simp add: ex_args_def)
  have f: "frame_sampler (env_randperm ?env) (env_config ?env) (env_dataset ?env) (arg_n_data ?a)
             = Inr ([ex_frame 3], 3)"
    by (simp add: frame_sampler_def sampled_indices_def slice_to_def ex_perm_def ex_frame_def
        ex_env_def ex_args_def dataset_seed_of_def config_get_def n_atoms_def upt_rec)
  have d: "select_device ?a ?env = ''cpu''" "env_dataset_time ?env = 0"
    "length (env_dataset ?env) = 1" "arg_n_data ?a = 1"
    by (simp_all add: select_device_def ex_args_def ex_env_def)
  have "main_with_setup SetupReturns ?a ?env =
          ([PrintUsingDevice (select_device ?a ?env), PrintDatasetLoaded (env_dataset_time ?env),
            PrintFrameStatistics (length (env_dataset ?env)) (arg_n_data ?a) 3, PrintQuit], None)"
    using zero_trials_quit [OF z, of SetupReturns ?env] f by blast
  then have m: "main_with_setup SetupReturns ?a ?env =
          ([PrintUsingDevice ''cpu'', PrintDatasetLoaded 0, PrintFrameStatistics 1 1 3, PrintQuit], None)"
    unfolding d .
  show ?thesis using z f m by blast
qed

text \<open>
  The claim C9 as stated fails: with \<open>n = 0\<close> and \<^verbatim>\<open>--n-data 0\<close> the run ends with
  \<^verbatim>\<open>IndexError\<close>, and with \<open>n = 0\<close> over frames of one and of two atoms it ends with
  \<^verbatim>\<open>NotImplementedError\<close>, in both cases before the dataset diagnostics.
\<close>

theorem zero_trials_sampler_failure_counterexample:
  "arg_n (ex_args 0 0 None) = 0
   \<and> main (ex_args 0 0 None) (ex_env Map.empty [ex_frame 3])
       = ([PrintUsingDevice ''cpu'', PrintDatasetLoaded 0], Some IndexError)
   \<and> arg_n (ex_args 0 2 None) = 0
   \<and> main (ex_args 0 2 None) (ex_env Map.empty [ex_frame 1, ex_frame 2])
       = ([PrintUsingDevice ''cpu'', PrintDatasetLoaded 0], Some NotImplementedError)"
  by (simp add: main_def frame_sampler_def sampled_indices_def slice_to_def ex_perm_def
      ex_frame_def ex_env_def ex_args_def dataset_seed_of_def config_get_def n_atoms_def
      select_device_def upt_rec)

section \<open>Statements and loops of the run\<close>

lemma stmt_ok: "failed s = None \<Longrightarrow> stmt f s = f s"
  by (simp add: stmt_def)

lemma prepare_compiled:
  assumes "failed s = None"
  shows "prepare_model False d ct s =
     s\<lparr>events := events s @
          [ModelEval, JitScript, CompileForDeploy, PrintCompilationTook ct,
           JitSave (Deployed (Scripted (model s))), JitLoad d, JitFreeze,
           JitSave (Frozen (Reloaded (Deployed (Scripted (model s))) d)), JitLoad d],
       model := Reloaded (Frozen (Reloaded (Deployed (Scripted (model s))) d)) d,
       tmpfile := Some (Frozen (Reloaded (Deployed (Scripted (model s))) d))\<rparr>"
  using assms
  by (simp add: prepare_model_def emit_def transform_def jit_save_def jit_load_def stmt_def)

lemma prepare_eager:
  assumes "failed s = None"
  shows "prepare_model True d ct s =
     s\<lparr>events := events s @ [ModelEval, ModelTo d], model := MovedTo (model s) d\<rparr>"
  using assms
  by (simp add: prepare_model_def emit_def transform_def stmt_def)

lemma prepare_model_keeps:
  assumes "failed s = None"
  shows "failed (prepare_model nc d ct s) = None"
    and "cursor (prepare_model nc d ct s) = cursor s"
    and "filter is_invoke (events (prepare_model nc d ct s)) = filter is_invoke (events s)"
    and "filter is_export (events (prepare_model nc d ct s)) = filter is_export (events s)"
    and "filter is_timing_result (events (prepare_model nc d ct s)) = filter is_timing_result (events s)"
  using assms by (cases nc; simp add: prepare_compiled prepare_eager)+

lemma call_model_ok:
  assumes "failed s = None" and "pool \<noteq> []"
  shows "call_model pool s =
     s\<lparr>events := events s @ [Invoke (model s) (pool ! cursor s)],
       cursor := (cursor s + 1) mod length pool\<rparr>"
  using assms by (simp add: call_model_def stmt_def cycle_next_def)

lemma call_model_funpow:
  assumes "failed s = None" and "pool \<noteq> []" and "cursor s < length pool"
  shows "(call_model pool ^^ k) s =
     s\<lparr>events := events s @
          map (\<lambda>j. Invoke (model s) (pool ! ((cursor s + j) mod length pool))) [0..<k],
       cursor := (cursor s + k) mod length pool\<rparr>"
proof (induction k)
  case 0
  show ?case using assms by simp
next
  case (Suc k)
  let ?sk = "(call_model pool ^^ k) s"
  have f: "failed ?sk = None" using Suc assms by simp
  have "(call_model pool ^^ Suc k) s = call_model pool ?sk" by simp
  also have "\<dots> = ?sk\<lparr>events := events ?sk @ [Invoke (model ?sk) (pool ! cursor ?sk)],
       cursor := (cursor ?sk + 1) mod length pool\<rparr>"
    using call_model_ok [OF f assms(2)] .
  also have "\<dots> = s\<lparr>events := events s @
          map (\<lambda>j. Invoke (model s) (pool ! ((cursor s + j) mod length pool))) [0..<Suc k],
       cursor := (cursor s + Suc k) mod length pool\<rparr>"
    by (simp add: Suc mod_Suc_eq)
  finally show ?case .
qed

lemma sampler_nonempty:
  "frame_sampler rp cfg ds n_data = Inr (datas, n_atom) \<Longrightarrow> datas \<noteq> []"
  by (auto simp add: frame_sampler_def Let_def split: sum.splits list.splits if_splits)

lemma main_benchmark:
  assumes "frame_sampler (env_randperm env) (env_config env) (env_dataset env) (arg_n_data a)
             = Inr (datas, n_atom)"
    and "arg_n a \<noteq> 0"
  shows "main a env =
     (let s = benchmark a env (select_device a env) datas n_atom
                (built [PrintUsingDevice (select_device a env),
                        PrintDatasetLoaded (env_dataset_time env),
                        PrintFrameStatistics (length (env_dataset env)) (arg_n_data a) n_atom]
                   (env_model_time env))
      in (events s, failed s))"
  using assms by (simp add: main_def Let_def)

lemma ex_sampler:
  "frame_sampler (env_randperm (ex_env cfg [ex_frame 3])) (env_config (ex_env cfg [ex_frame 3]))
     (env_dataset (ex_env cfg [ex_frame 3])) (arg_n_data (ex_args n 1 p)) = Inr ([ex_frame 3], 3)"
  by (simp add: frame_sampler_def sampled_indices_def slice_to_def ex_perm_def ex_frame_def
      ex_env_def ex_args_def n_atoms_def upt_rec)


lemma funpow_filter:
  fixes f :: "'a state \<Rightarrow> 'a state"
  assumes "\<And>s. filter P (events (f s)) = filter P (events s)"
  shows "filter P (events ((f ^^ k) s)) = filter P (events s)"
  by (induction k) (simp_all add: assms)

lemma call_model_no_jit: "filter is_jit (events (call_model pool s)) = filter is_jit (events s)"
  by (simp add: call_model_def stmt_def cycle_next_def)

lemma profiler_step_no_jit:
  "filter is_jit (events (profiler_step sched path s)) = filter is_jit (events s)"
  by (simp add: profiler_step_def stmt_def Let_def)

lemma profiler_enter_no_jit:
  "filter is_jit (events (profiler_enter c w1 w2 n r s)) = filter is_jit (events s)"
  by (simp add: profiler_enter_def stmt_def)

lemma profiler_exit_no_jit:
  "filter is_jit (events (profiler_exit sched path s)) = filter is_jit (events s)"
  by (simp add: profiler_exit_def Let_def)

lemma tracing_no_jit:
  "filter is_jit (events (tracing path d w n pool s)) = filter is_jit (events s)"
proof -
  have body: "\<And>sched s. filter is_jit (events (profiler_step sched path (call_model pool s)))
      = filter is_jit (events s)"
    by (simp add: profiler_step_no_jit call_model_no_jit)
  show ?thesis
    by (simp add: tracing_def Let_def profiler_exit_no_jit profiler_enter_no_jit
        funpow_filter [where P = is_jit, OF body])
qed

lemma raise_events: "events (raise e s) = events s"
  by (simp add: raise_def stmt_def)

lemma emit_no_jit: "\<not> is_jit e \<Longrightarrow> filter is_jit (events (emit e s)) = filter is_jit (events s)"
  by (simp add: emit_def stmt_def)

lemma report_no_jit:
  "filter is_jit (events (report ops t n_atom dt s)) = filter is_jit (events s)"
  by (simp add: report_def Let_def raise_events emit_no_jit split: sum.splits)

lemma timing_no_jit:
  "filter is_jit (events (timing ops w n wt t n_atom dt pool s)) = filter is_jit (events s)"
proof -
  have tt: "\<And>s. filter is_jit (events (timer_timeit n s)) = filter is_jit (events (s::'a state))"
    by (simp add: timer_timeit_def stmt_def)
  have wp: "filter is_jit (events (warmup_phase w wt pool s)) = filter is_jit (events s)"
    by (simp add: warmup_phase_def emit_no_jit funpow_filter [where P = is_jit, OF call_model_no_jit])
  show ?thesis by (simp add: timing_def report_no_jit tt wp)
qed

lemma benchmark_jit:
  "filter is_jit (events (benchmark a env d datas n_atom s))
     = filter is_jit (events (prepare_model (arg_no_compile a) d (env_compile_time env) s))"
  by (simp add: benchmark_def Let_def raise_events tracing_no_jit timing_no_jit
      split: sum.splits option.splits)


section \<open>Model preparation\<close>

text \<open>
  Claim C3. On the compiled path (\<^verbatim>\<open>--no-compile\<close> absent) of a run that reaches the
  model preparation, the transforms applied are, in this order and no others: the
  ahead-of-time compilation, the deploy post-processing, a save and a load on the target
  device, the freezing, and a second save and load. The model that results is the
  reloaded frozen reloaded deployed compiled model.
\<close>

theorem compiled_path_two_round_trips:
  fixes env :: "'a env"
  assumes "frame_sampler (env_randperm env) (env_config env) (env_dataset env) (arg_n_data a)
             = Inr (datas, n_atom)"
    and "arg_n a \<noteq> 0"
    and "\<not> arg_no_compile a"
  shows "filter is_jit (fst (main a env)) =
           [JitScript, CompileForDeploy,
            JitSave (Deployed (Scripted FromConfig)), JitLoad (select_device a env),
            JitFreeze,
            JitSave (Frozen (Reloaded (Deployed (Scripted FromConfig)) (select_device a env))),
            JitLoad (select_device a env)]
       \<and> (\<forall>s::'a state. failed s = None \<longrightarrow>
            model (prepare_model (arg_no_compile a) d ct s)
              = Reloaded (Frozen (Reloaded (Deployed (Scripted (model s))) d)) d
            \<and> failed (prepare_model (arg_no_compile a) d ct s) = None)"
proof -
  let ?s0 = "built [PrintUsingDevice (select_device a env),
                    PrintDatasetLoaded (env_dataset_time env),
                    PrintFrameStatistics (length (env_dataset env)) (arg_n_data a) n_atom]
               (env_model_time env) :: 'a state"
  have f0: "failed ?s0 = None" by (simp add: built_def)
  have nc: "arg_no_compile a = False" using assms(3) by simp
  have "fst (main a env) = events (benchmark a env (select_device a env) datas n_atom ?s0)"
    using main_benchmark [OF assms(1,2)] by (simp add: Let_def)
  then have "filter is_jit (fst (main a env))
      = filter is_jit (events (prepare_model False (select_device a env) (env_compile_time env) ?s0))"
    by (simp add: benchmark_jit nc)
  then have 1: "filter is_jit (fst (main a env)) =
           [JitScript, CompileForDeploy,
            JitSave (Deployed (Scripted FromConfig)), JitLoad (select_device a env),
            JitFreeze,
            JitSave (Frozen (Reloaded (Deployed (Scripted FromConfig)) (select_device a env))),
            JitLoad (select_device a env)]"
    by (simp only: prepare_compiled [OF f0]) (simp add: built_def)
  have 2: "\<forall>s::'a state. failed s = None \<longrightarrow>
            model (prepare_model (arg_no_compile a) d ct s)
              = Reloaded (Frozen (Reloaded (Deployed (Scripted (model s))) d)) d
            \<and> failed (prepare_model (arg_no_compile a) d ct s) = None"
    by (simp add: nc prepare_compiled)
  show ?thesis using 1 2 by blast
qed

theorem compiled_path_two_round_trips_witness:
  "arg_n (ex_args 2 1 None) \<noteq> 0
   \<and> \<not> arg_no_compile (ex_args 2 1 None)
   \<and> filter is_jit (fst (main (ex_args 2 1 None) (ex_env [''_jit_bailout_depth'' \<mapsto> 2] [ex_frame 3])))
       = [JitScript, CompileForDeploy,
          JitSave (Deployed (Scripted FromConfig)), JitLoad ''cpu'',
          JitFreeze,
          JitSave (Frozen (Reloaded (Deployed (Scripted FromConfig)) ''cpu'')),
          JitLoad ''cpu'']
   \<and> failed (built [] 0 :: nat state) = None
   \<and> model (prepare_model (arg_no_compile (ex_args 2 1 None)) ''cpu'' 0 (built [] 0 :: nat state))
       = Reloaded (Frozen (Reloaded (Deployed (Scripted FromConfig)) ''cpu'')) ''cpu''"
proof -
  let ?a = "ex_args 2 1 None"
  let ?env = "ex_env [''_jit_bailout_depth'' \<mapsto> 2] [ex_frame 3]"
  have n: "arg_n ?a \<noteq> 0" by (simp add: ex_args_def)
  have c: "\<not> arg_no_compile ?a" by (simp add: ex_args_def)
  have dv: "select_device ?a ?env = ''cpu''" by (simp add: select_device_def ex_args_def ex_env_def)
  have b: "failed (built [] 0 :: nat state) = None" "model (built [] 0 :: nat state) = FromConfig"
    by (simp_all add: built_def)
  note t = compiled_path_two_round_trips [OF ex_sampler n c, where d = "''cpu''" and ct = 0]
  have "filter is_jit (fst (main ?a ?env))
       = [JitScript, CompileForDeploy,
          JitSave (Deployed (Scripted FromConfig)), JitLoad (select_device ?a ?env),
          JitFreeze,
          JitSave (Frozen (Reloaded (Deployed (Scripted FromConfig)) (select_device ?a ?env))),
          JitLoad (select_device ?a ?env)]"
    using t by blast
  then have 1: "filter is_jit (fst (main ?a ?env))
       = [JitScript, CompileForDeploy,
          JitSave (Deployed (Scripted FromConfig)), JitLoad ''cpu'',
          JitFreeze,
          JitSave (Frozen (Reloaded (Deployed (Scripted FromConfig)) ''cpu'')),
          JitLoad ''cpu'']"
    unfolding dv .
  have "model (prepare_model (arg_no_compile ?a) ''cpu'' 0 (built [] 0 :: nat state))
       = Reloaded (Frozen (Reloaded (Deployed (Scripted (model (built [] 0 :: nat state)))) ''cpu'')) ''cpu''"
    using t b(1) by blast
  then have 2: "model (prepare_model (arg_no_compile ?a) ''cpu'' 0 (built [] 0 :: nat state))
       = Reloaded (Frozen (Reloaded (Deployed (Scripted FromConfig)) ''cpu'')) ''cpu''"
    unfolding b(2) .
  show ?thesis using n c 1 b(1) 2 by blast
qed

section \<open>Warmup and timing mode\<close>

lemma prepared_keeps:
  "failed (prepared a env n_atom) = None"
  "cursor (prepared a env n_atom) = 0"
  "filter is_invoke (events (prepared a env n_atom)) = []"
  "filter is_export (events (prepared a env n_atom)) = []"
  "filter is_timing_result (events (prepared a env n_atom)) = []"
proof -
  let ?s0 = "built [PrintUsingDevice (select_device a env),
               PrintDatasetLoaded (env_dataset_time env),
               PrintFrameStatistics (length (env_dataset env)) (arg_n_data a) n_atom]
          (env_model_time env) :: 'a state"
  have f0: "failed ?s0 = None" by (simp add: built_def)
  have c0: "cursor ?s0 = 0" by (simp add: built_def)
  have e0: "filter is_invoke (events ?s0) = []" "filter is_export (events ?s0) = []"
    "filter is_timing_result (events ?s0) = []"
    by (simp_all add: built_def)
  show "failed (prepared a env n_atom) = None"
    unfolding prepared_def using prepare_model_keeps(1) [OF f0] .
  show "cursor (prepared a env n_atom) = 0"
    unfolding prepared_def using prepare_model_keeps(2) [OF f0] c0 by simp
  show "filter is_invoke (events (prepared a env n_atom)) = []"
    unfolding prepared_def using prepare_model_keeps(3) [OF f0] e0 by simp
  show "filter is_export (events (prepared a env n_atom)) = []"
    unfolding prepared_def using prepare_model_keeps(4) [OF f0] e0 by simp
  show "filter is_timing_result (events (prepared a env n_atom)) = []"
    unfolding prepared_def using prepare_model_keeps(5) [OF f0] e0 by simp
qed

lemma benchmark_prepared:
  fixes env :: "'a env"
  assumes "frame_sampler (env_randperm env) (env_config env) (env_dataset env) (arg_n_data a)
             = Inr (datas, n_atom)"
    and "arg_n a \<noteq> 0"
    and "env_config env ''_jit_bailout_depth'' = Some depth"
  shows "main a env =
     (let s = (case arg_profile a of
                 Some path \<Rightarrow> tracing path (select_device a env) (depth + 4) (arg_n a) datas
                                (prepared a env n_atom)
               | None \<Rightarrow> timing (env_float env) (depth + 4) (arg_n a) (env_warmup_time env)
                           (env_trim_time env) n_atom (arg_timestep a) datas (prepared a env n_atom))
      in (events s, failed s))"
  using assms(3)
  by (cases "arg_profile a")
    (simp_all add: main_benchmark [OF assms(1,2)] benchmark_def prepared_def warmup_depth_def
      config_getitem_def Let_def)

lemma report_ok:
  assumes "failed s = None"
  shows "report ops t n_atom dt s =
     s\<lparr>events := events s @
          PrintAverageCall t #
          (if n_atom = 0 then []
           else PrintPerAtom (fl_div ops t (fl_of_nat ops n_atom)) #
                (if t = Finite 0 then []
                 else [PrintNsDay dt
                         (fl_mul ops (fl_mul ops (fl_div ops (fl_lit ops 86400) t) dt)
                            (fl_lit ops (1 / 1000000)))])),
       failed := (if n_atom = 0 \<or> t = Finite 0 then Some ZeroDivisionError else None)\<rparr>"
  using assms
  by (simp add: report_def emit_def raise_def stmt_def per_atom_time_def ns_day_def Let_def)

lemma timing_ok:
  assumes "failed s = None" and "pool \<noteq> []" and "cursor s < length pool"
  shows "events (timing ops w n wt t n_atom dt pool s) =
     events s @
       map (\<lambda>k. Invoke (model s) (pool ! ((cursor s + k) mod length pool))) [0..<nat w] @
       PrintWarmup w wt # TimerTimeit (model s) n # PrintAverageCall t #
          (if n_atom = 0 then []
           else PrintPerAtom (fl_div ops t (fl_of_nat ops n_atom)) #
                (if t = Finite 0 then []
                 else [PrintNsDay dt
                         (fl_mul ops (fl_mul ops (fl_div ops (fl_lit ops 86400) t) dt)
                            (fl_lit ops (1 / 1000000)))]))"
    and "failed (timing ops w n wt t n_atom dt pool s)
           = (if n_atom = 0 \<or> t = Finite 0 then Some ZeroDivisionError else None)"
proof -
  let ?s1 = "(call_model pool ^^ nat w) s"
  have s1: "?s1 = s\<lparr>events := events s @
          map (\<lambda>j. Invoke (model s) (pool ! ((cursor s + j) mod length pool))) [0..<nat w],
       cursor := (cursor s + nat w) mod length pool\<rparr>"
    by (rule call_model_funpow [OF assms])
  let ?s2 = "timer_timeit n (warmup_phase w wt pool s)"
  have s2: "?s2 = s\<lparr>events := events s @
          map (\<lambda>j. Invoke (model s) (pool ! ((cursor s + j) mod length pool))) [0..<nat w] @
          [PrintWarmup w wt, TimerTimeit (model s) n],
       cursor := (cursor s + nat w) mod length pool\<rparr>"
    unfolding warmup_phase_def s1 using assms(1)
    by (simp add: emit_def timer_timeit_def stmt_def)
  have f2: "failed ?s2 = None" unfolding s2 using assms(1) by simp
  show "events (timing ops w n wt t n_atom dt pool s) =
     events s @
       map (\<lambda>k. Invoke (model s) (pool ! ((cursor s + k) mod length pool))) [0..<nat w] @
       PrintWarmup w wt # TimerTimeit (model s) n # PrintAverageCall t #
          (if n_atom = 0 then []
           else PrintPerAtom (fl_div ops t (fl_of_nat ops n_atom)) #
                (if t = Finite 0 then []
                 else [PrintNsDay dt
                         (fl_mul ops (fl_mul ops (fl_div ops (fl_lit ops 86400) t) dt)
                            (fl_lit ops (1 / 1000000)))]))"
    unfolding timing_def report_ok [OF f2, of ops] unfolding s2 by simp
  show "failed (timing ops w n wt t n_atom dt pool s)
           = (if n_atom = 0 \<or> t = Finite 0 then Some ZeroDivisionError else None)"
    unfolding timing_def report_ok [OF f2, of ops] by simp
qed

lemma filter_invoke_map:
  "filter is_invoke (map (\<lambda>k. Invoke m (f k)) xs) = map (\<lambda>k. Invoke m (f k)) xs"
  by (induction xs) simp_all


text \<open>
  Claim C6. In a run that reaches the warmup computation the warmup count is the value
  of \<^verbatim>\<open>_jit_bailout_depth\<close> in the configuration plus 4. In timing mode the warmup loop
  calls the model that many times (\<^verbatim>\<open>range\<close> of a negative count runs no call), each
  call taking the next frame of the cyclic pool, before the timer is started; the
  elapsed time of the warmup appears only in its own report and changes neither the
  actions of the measurement nor the outcome of the run.
\<close>

theorem warmup_calls:
  fixes env :: "'a env"
  assumes samp: "frame_sampler (env_randperm env) (env_config env) (env_dataset env) (arg_n_data a)
             = Inr (datas, n_atom)"
    and n: "arg_n a \<noteq> 0"
    and timing_mode: "arg_profile a = None"
    and depth: "env_config env ''_jit_bailout_depth'' = Some depth"
  shows "warmup_depth (env_config env) = Inr (depth + 4)
       \<and> fst (main a env) =
            events (prepared a env n_atom) @
            map (\<lambda>k. Invoke (model (prepared a env n_atom)) (datas ! (k mod length datas)))
              [0..<nat (depth + 4)] @
            PrintWarmup (depth + 4) (env_warmup_time env) #
            TimerTimeit (model (prepared a env n_atom)) (arg_n a) #
            PrintAverageCall (env_trim_time env) #
            (if n_atom = 0 then []
             else PrintPerAtom (fl_div (env_float env) (env_trim_time env) (fl_of_nat (env_float env) n_atom)) #
                  (if env_trim_time env = Finite 0 then []
                   else [PrintNsDay (arg_timestep a)
                           (fl_mul (env_float env)
                              (fl_mul (env_float env)
                                 (fl_div (env_float env) (fl_lit (env_float env) 86400)
                                    (env_trim_time env))
                                 (arg_timestep a))
                              (fl_lit (env_float env) (1 / 1000000)))]))
       \<and> length (filter is_invoke (fst (main a env))) = nat (depth + 4)
       \<and> (0 \<le> depth + 4 \<longrightarrow> int (length (filter is_invoke (fst (main a env)))) = depth + 4)
       \<and> (\<forall>x. filter is_timing_result (fst (main a (env\<lparr>env_warmup_time := x\<rparr>)))
                 = filter is_timing_result (fst (main a env))
              \<and> snd (main a (env\<lparr>env_warmup_time := x\<rparr>)) = snd (main a env))"
proof -
  let ?p = "prepared a env n_atom"
  have ne: "datas \<noteq> []" using sampler_nonempty [OF samp] .
  have f: "failed ?p = None" and c: "cursor ?p = 0"
    by (simp_all add: prepared_keeps)
  have c': "cursor ?p < length datas" using c ne by simp
  have w: "warmup_depth (env_config env) = Inr (depth + 4)"
    using depth by (simp add: warmup_depth_def config_getitem_def)
  have shape: "\<And>wt. fst (main a (env\<lparr>env_warmup_time := wt\<rparr>)) =
            events ?p @
            map (\<lambda>k. Invoke (model ?p) (datas ! (k mod length datas))) [0..<nat (depth + 4)] @
            PrintWarmup (depth + 4) wt #
            TimerTimeit (model ?p) (arg_n a) #
            PrintAverageCall (env_trim_time env) #
            (if n_atom = 0 then []
             else PrintPerAtom (fl_div (env_float env) (env_trim_time env) (fl_of_nat (env_float env) n_atom)) #
                  (if env_trim_time env = Finite 0 then []
                   else [PrintNsDay (arg_timestep a)
                           (fl_mul (env_float env)
                              (fl_mul (env_float env)
                                 (fl_div (env_float env) (fl_lit (env_float env) 86400)
                                    (env_trim_time env))
                                 (arg_timestep a))
                              (fl_lit (env_float env) (1 / 1000000)))]))"
    and out: "\<And>wt. snd (main a (env\<lparr>env_warmup_time := wt\<rparr>)) =
            (if n_atom = 0 \<or> env_trim_time env = Finite 0 then Some ZeroDivisionError else None)"
  proof -
    fix wt
    let ?env = "env\<lparr>env_warmup_time := wt\<rparr>"
    have samp': "frame_sampler (env_randperm ?env) (env_config ?env) (env_dataset ?env) (arg_n_data a)
             = Inr (datas, n_atom)" using samp by simp
    have depth': "env_config ?env ''_jit_bailout_depth'' = Some depth" using depth by simp
    have p': "prepared a ?env n_atom = ?p"
      by (simp add: prepared_def select_device_def)
    have m: "main a ?env =
       (events (timing (env_float env) (depth + 4) (arg_n a) wt (env_trim_time env) n_atom (arg_timestep a) datas ?p),
        failed (timing (env_float env) (depth + 4) (arg_n a) wt (env_trim_time env) n_atom (arg_timestep a) datas ?p))"
      using benchmark_prepared [OF samp' n depth'] timing_mode p'
      by (simp add: Let_def select_device_def)
    show "fst (main a ?env) =
            events ?p @
            map (\<lambda>k. Invoke (model ?p) (datas ! (k mod length datas))) [0..<nat (depth + 4)] @
            PrintWarmup (depth + 4) wt #
            TimerTimeit (model ?p) (arg_n a) #
            PrintAverageCall (env_trim_time env) #
            (if n_atom = 0 then []
             else PrintPerAtom (fl_div (env_float env) (env_trim_time env) (fl_of_nat (env_float env) n_atom)) #
                  (if env_trim_time env = Finite 0 then []
                   else [PrintNsDay (arg_timestep a)
                           (fl_mul (env_float env)
                              (fl_mul (env_float env)
                                 (fl_div (env_float env) (fl_lit (env_float env) 86400)
                                    (env_trim_time env))
                                 (arg_timestep a))
                              (fl_lit (env_float env) (1 / 1000000)))]))"
      unfolding m fst_conv timing_ok(1) [OF f ne c'] c by simp
    show "snd (main a ?env) =
            (if n_atom = 0 \<or> env_trim_time env = Finite 0 then Some ZeroDivisionError else None)"
      unfolding m snd_conv timing_ok(2) [OF f ne c'] by simp
  qed
  have same: "env\<lparr>env_warmup_time := env_warmup_time env\<rparr> = env" by simp
  have ev: "fst (main a env) =
            events ?p @
            map (\<lambda>k. Invoke (model ?p) (datas ! (k mod length datas))) [0..<nat (depth + 4)] @
            PrintWarmup (depth + 4) (env_warmup_time env) #
            TimerTimeit (model ?p) (arg_n a) #
            PrintAverageCall (env_trim_time env) #
            (if n_atom = 0 then []
             else PrintPerAtom (fl_div (env_float env) (env_trim_time env) (fl_of_nat (env_float env) n_atom)) #
                  (if env_trim_time env = Finite 0 then []
                   else [PrintNsDay (arg_timestep a)
                           (fl_mul (env_float env)
                              (fl_mul (env_float env)
                                 (fl_div (env_float env) (fl_lit (env_float env) 86400)
                                    (env_trim_time env))
                                 (arg_timestep a))
                              (fl_lit (env_float env) (1 / 1000000)))]))"
    using shape [of "env_warmup_time env"] unfolding same .
  have o: "snd (main a env) =
            (if n_atom = 0 \<or> env_trim_time env = Finite 0 then Some ZeroDivisionError else None)"
    using out [of "env_warmup_time env"] unfolding same .
  have cnt: "length (filter is_invoke (fst (main a env))) = nat (depth + 4)"
    unfolding ev by (simp add: prepared_keeps filter_invoke_map)
  have cnt': "0 \<le> depth + 4 \<longrightarrow> int (length (filter is_invoke (fst (main a env)))) = depth + 4"
    using cnt by simp
  have indep: "\<forall>x. filter is_timing_result (fst (main a (env\<lparr>env_warmup_time := x\<rparr>)))
                 = filter is_timing_result (fst (main a env))
              \<and> snd (main a (env\<lparr>env_warmup_time := x\<rparr>)) = snd (main a env)"
    unfolding shape out ev o by (simp add: prepared_keeps)
  show ?thesis using w ev cnt cnt' indep by blast
qed

theorem warmup_calls_witness:
  "arg_n (ex_args 2 1 None) \<noteq> 0
   \<and> arg_profile (ex_args 2 1 None) = None
   \<and> env_config (ex_env [''_jit_bailout_depth'' \<mapsto> 2] [ex_frame 3]) ''_jit_bailout_depth'' = Some 2
   \<and> (0::int) \<le> 2 + 4
   \<and> warmup_depth (env_config (ex_env [''_jit_bailout_depth'' \<mapsto> 2] [ex_frame 3])) = Inr 6
   \<and> int (length (filter is_invoke (fst (main (ex_args 2 1 None)
         (ex_env [''_jit_bailout_depth'' \<mapsto> 2] [ex_frame 3]))))) = 6"
proof -
  let ?a = "ex_args 2 1 None"
  let ?env = "ex_env [''_jit_bailout_depth'' \<mapsto> 2] [ex_frame 3]"
  have n: "arg_n ?a \<noteq> 0" by (simp add: ex_args_def)
  have p: "arg_profile ?a = None" by (simp add: ex_args_def)
  have d: "env_config ?env ''_jit_bailout_depth'' = Some 2" by (simp add: ex_env_def)
  have w: "(0::int) \<le> 2 + 4" by simp
  note t = warmup_calls [OF ex_sampler n p d]
  have "warmup_depth (env_config ?env) = Inr (2 + 4)" using t by blast
  then have 1: "warmup_depth (env_config ?env) = Inr 6" by simp
  have "0 \<le> (2::int) + 4 \<longrightarrow> int (length (filter is_invoke (fst (main ?a ?env)))) = 2 + 4"
    using t by blast
  then have 2: "int (length (filter is_invoke (fst (main ?a ?env)))) = 6"
    using w by simp
  show ?thesis using n p d w 1 2 by blast
qed


section \<open>Tracing mode\<close>

lemma schedule_before_last:
  assumes "0 \<le> w" and "0 < n" and "j < nat (w + n)"
  shows "schedule_fn 1 w n 1 j \<noteq> RECORD_AND_SAVE"
proof -
  have "int j < w + n" using assms by linarith
  then have "int j mod (1 + w + n) = int j" by simp
  then show ?thesis using assms \<open>int j < w + n\<close>
    by (simp add: schedule_fn_def Let_def)
qed

lemma schedule_last:
  assumes "0 \<le> w" and "0 < n"
  shows "schedule_fn 1 w n 1 (nat (w + n)) = RECORD_AND_SAVE"
proof -
  have "int (nat (w + n)) = w + n" using assms by simp
  moreover have "(w + n) mod (1 + w + n) = w + n" using assms by simp
  ultimately show ?thesis using assms by (simp add: schedule_fn_def Let_def)
qed

lemma schedule_done:
  assumes "0 \<le> w" and "0 < n"
  shows "schedule_fn 1 w n 1 (Suc (nat (w + n))) = NONE"
proof -
  have "int (Suc (nat (w + n))) = 1 + w + n" using assms by simp
  then show ?thesis by (simp add: schedule_fn_def Let_def)
qed

lemma trace_body:
  assumes "failed s = None" and "pool \<noteq> []"
  shows "profiler_step sched path (call_model pool s) =
     s\<lparr>events := events s @ Invoke (model s) (pool ! cursor s) # ProfilerStep #
          (if sched (prof_step s) = RECORD_AND_SAVE then [ExportTrace path] else []),
       cursor := (cursor s + 1) mod length pool,
       prof_step := prof_step s + 1\<rparr>"
  using assms by (simp add: call_model_ok profiler_step_def stmt_def Let_def)

lemma trace_loop:
  assumes "failed s = None" and "pool \<noteq> []" and "cursor s < length pool"
    and "\<forall>j. prof_step s \<le> j \<and> j < prof_step s + k \<longrightarrow> sched j \<noteq> RECORD_AND_SAVE"
  shows "((\<lambda>s. profiler_step sched path (call_model pool s)) ^^ k) s =
     s\<lparr>events := events s @
          concat (map (\<lambda>j. [Invoke (model s) (pool ! ((cursor s + j) mod length pool)), ProfilerStep])
            [0..<k]),
       cursor := (cursor s + k) mod length pool,
       prof_step := prof_step s + k\<rparr>"
  using assms(4)
proof (induction k)
  case 0
  show ?case using assms(3) by simp
next
  case (Suc k)
  let ?f = "\<lambda>s. profiler_step sched path (call_model pool s)"
  let ?sk = "(?f ^^ k) s"
  have ih: "?sk = s\<lparr>events := events s @
          concat (map (\<lambda>j. [Invoke (model s) (pool ! ((cursor s + j) mod length pool)), ProfilerStep])
            [0..<k]),
       cursor := (cursor s + k) mod length pool,
       prof_step := prof_step s + k\<rparr>"
    using Suc by simp
  have f: "failed ?sk = None" unfolding ih using assms(1) by simp
  have ps: "prof_step ?sk = prof_step s + k" unfolding ih by simp
  have nosave: "sched (prof_step ?sk) \<noteq> RECORD_AND_SAVE"
    unfolding ps using Suc.prems by simp
  have "(?f ^^ Suc k) s = ?f ?sk" by simp
  also have "\<dots> = ?sk\<lparr>events := events ?sk @ Invoke (model ?sk) (pool ! cursor ?sk) # ProfilerStep #
          (if sched (prof_step ?sk) = RECORD_AND_SAVE then [ExportTrace path] else []),
       cursor := (cursor ?sk + 1) mod length pool,
       prof_step := prof_step ?sk + 1\<rparr>"
    by (rule trace_body [OF f assms(2)])
  also have "\<dots> = s\<lparr>events := events s @
          concat (map (\<lambda>j. [Invoke (model s) (pool ! ((cursor s + j) mod length pool)), ProfilerStep])
            [0..<Suc k]),
       cursor := (cursor s + Suc k) mod length pool,
       prof_step := prof_step s + Suc k\<rparr>"
    using nosave unfolding ih by (simp add: mod_Suc_eq)
  finally show ?case .
qed

lemma tracing_ok:
  assumes w: "0 \<le> w" and n: "0 < n"
    and f: "failed s = None" and ne: "pool \<noteq> []" and c: "cursor s < length pool"
  shows "events (tracing path d w n pool s) =
     events s @ ProfilerEnter (device_type d = ''cuda'') 1 w n 1 #
       concat (map (\<lambda>j. [Invoke (model s) (pool ! ((cursor s + j) mod length pool)), ProfilerStep])
         [0..<nat (1 + w + n)]) @
       [ExportTrace path, ProfilerExit]"
    and "failed (tracing path d w n pool s) = None"
proof -
  let ?sched = "schedule_fn 1 w n 1"
  let ?body = "\<lambda>s. profiler_step ?sched path (call_model pool s)"
  let ?k = "nat (w + n)"
  let ?s1 = "s\<lparr>events := events s @ [ProfilerEnter (device_type d = ''cuda'') 1 w n 1],
               prof_step := 0\<rparr>"
  have enter: "profiler_enter (device_type d = ''cuda'') 1 w n 1 s = ?s1"
    using w n f by (simp add: profiler_enter_def stmt_def)
  have f1: "failed ?s1 = None" and c1: "cursor ?s1 < length pool" using f c by simp_all
  have quiet: "\<forall>j. prof_step ?s1 \<le> j \<and> j < prof_step ?s1 + ?k \<longrightarrow> ?sched j \<noteq> RECORD_AND_SAVE"
    using schedule_before_last [OF w n] by simp
  let ?s2 = "(?body ^^ ?k) ?s1"
  have s2: "?s2 = ?s1\<lparr>events := events ?s1 @
          concat (map (\<lambda>j. [Invoke (model ?s1) (pool ! ((cursor ?s1 + j) mod length pool)), ProfilerStep])
            [0..<?k]),
       cursor := (cursor ?s1 + ?k) mod length pool,
       prof_step := prof_step ?s1 + ?k\<rparr>"
    by (rule trace_loop [OF f1 ne c1 quiet])
  have f2: "failed ?s2 = None" unfolding s2 using f by simp
  have p2: "prof_step ?s2 = ?k" unfolding s2 by simp
  let ?s3 = "?body ?s2"
  have s3: "?s3 = ?s2\<lparr>events := events ?s2 @ Invoke (model ?s2) (pool ! cursor ?s2) # ProfilerStep #
          (if ?sched (prof_step ?s2) = RECORD_AND_SAVE then [ExportTrace path] else []),
       cursor := (cursor ?s2 + 1) mod length pool,
       prof_step := prof_step ?s2 + 1\<rparr>"
    by (rule trace_body [OF f2 ne])
  have total: "nat (1 + w + n) = Suc ?k" using w n by simp
  have loop: "(?body ^^ nat (1 + w + n)) ?s1 = ?s3" unfolding total by simp
  have s3': "?s3 = s\<lparr>events := events s @ ProfilerEnter (device_type d = ''cuda'') 1 w n 1 #
       concat (map (\<lambda>j. [Invoke (model s) (pool ! ((cursor s + j) mod length pool)), ProfilerStep])
         [0..<Suc ?k]) @ [ExportTrace path],
       cursor := (cursor s + Suc ?k) mod length pool,
       prof_step := Suc ?k\<rparr>"
    unfolding s3 p2 schedule_last [OF w n] unfolding s2 by (simp add: mod_Suc_eq)
  have tr: "tracing path d w n pool s = profiler_exit ?sched path ?s3"
    unfolding tracing_def Let_def enter loop using f by simp
  show "events (tracing path d w n pool s) =
     events s @ ProfilerEnter (device_type d = ''cuda'') 1 w n 1 #
       concat (map (\<lambda>j. [Invoke (model s) (pool ! ((cursor s + j) mod length pool)), ProfilerStep])
         [0..<nat (1 + w + n)]) @
       [ExportTrace path, ProfilerExit]"
    unfolding tr s3' total by (simp add: profiler_exit_def Let_def schedule_done [OF w n])
  show "failed (tracing path d w n pool s) = None"
    unfolding tr s3' using f by (simp add: profiler_exit_def Let_def)
qed

lemma filter_traced_calls:
  "filter is_invoke (concat (map (\<lambda>k. [Invoke m (f k), ProfilerStep]) xs))
     = map (\<lambda>k. Invoke m (f k)) xs"
  "filter is_export (concat (map (\<lambda>k. [Invoke m (f k), ProfilerStep]) xs)) = []"
  "filter is_timing_result (concat (map (\<lambda>k. [Invoke m (f k), ProfilerStep]) xs)) = []"
  by (induction xs) simp_all


text \<open>
  Claim C5. In tracing mode with \<open>n > 0\<close> trials and a warmup depth \<open>w \<ge> 0\<close>, the
  run opens a profiler session scheduled as wait 1, warmup \<open>w\<close>, active \<open>n\<close>, repeat 1,
  calls the model \<open>1 + w + n\<close> times inside it, each call followed by a step of the
  schedule, exports exactly one trace, to the requested path, and produces no timing
  figure.
\<close>

theorem tracing_mode_calls:
  fixes env :: "'a env"
  assumes samp: "frame_sampler (env_randperm env) (env_config env) (env_dataset env) (arg_n_data a)
             = Inr (datas, n_atom)"
    and n: "0 < arg_n a"
    and tracing_mode: "arg_profile a = Some path"
    and depth: "env_config env ''_jit_bailout_depth'' = Some depth"
    and w: "0 \<le> depth + 4"
  shows "main a env =
           (events (prepared a env n_atom) @
            ProfilerEnter (device_type (select_device a env) = ''cuda'') 1 (depth + 4) (arg_n a) 1 #
            concat (map (\<lambda>k. [Invoke (model (prepared a env n_atom)) (datas ! (k mod length datas)),
                               ProfilerStep])
                      [0..<nat (1 + (depth + 4) + arg_n a)]) @
            [ExportTrace path, ProfilerExit], None)
       \<and> int (length (filter is_invoke (fst (main a env)))) = 1 + (depth + 4) + arg_n a
       \<and> filter is_export (fst (main a env)) = [ExportTrace path]
       \<and> filter is_timing_result (fst (main a env)) = []"
proof -
  let ?p = "prepared a env n_atom"
  have ne: "datas \<noteq> []" using sampler_nonempty [OF samp] .
  have f: "failed ?p = None" and c: "cursor ?p = 0"
    by (simp_all add: prepared_keeps)
  have c': "cursor ?p < length datas" using c ne by simp
  have n0: "arg_n a \<noteq> 0" using n by simp
  have m: "main a env =
       (events (tracing path (select_device a env) (depth + 4) (arg_n a) datas ?p),
        failed (tracing path (select_device a env) (depth + 4) (arg_n a) datas ?p))"
    using benchmark_prepared [OF samp n0 depth] tracing_mode by (simp add: Let_def)
  have ev: "main a env =
           (events ?p @
            ProfilerEnter (device_type (select_device a env) = ''cuda'') 1 (depth + 4) (arg_n a) 1 #
            concat (map (\<lambda>k. [Invoke (model ?p) (datas ! (k mod length datas)), ProfilerStep])
                      [0..<nat (1 + (depth + 4) + arg_n a)]) @
            [ExportTrace path, ProfilerExit], None)"
    unfolding m tracing_ok [OF w n f ne c'] c by simp
  have cnt: "int (length (filter is_invoke (fst (main a env)))) = 1 + (depth + 4) + arg_n a"
    unfolding ev fst_conv using w n by (simp add: prepared_keeps filter_traced_calls)
  have ex: "filter is_export (fst (main a env)) = [ExportTrace path]"
    unfolding ev fst_conv by (simp add: prepared_keeps filter_traced_calls)
  have tm: "filter is_timing_result (fst (main a env)) = []"
    unfolding ev fst_conv by (simp add: prepared_keeps filter_traced_calls)
  show ?thesis using ev cnt ex tm by blast
qed


theorem tracing_mode_calls_witness:
  "0 < arg_n (ex_args 2 1 (Some ''trace.json''))
   \<and> arg_profile (ex_args 2 1 (Some ''trace.json'')) = Some ''trace.json''
   \<and> env_config (ex_env [''_jit_bailout_depth'' \<mapsto> 2] [ex_frame 3]) ''_jit_bailout_depth'' = Some 2
   \<and> (0::int) \<le> 2 + 4
   \<and> int (length (filter is_invoke (fst (main (ex_args 2 1 (Some ''trace.json''))
         (ex_env [''_jit_bailout_depth'' \<mapsto> 2] [ex_frame 3]))))) = 9
   \<and> filter is_export (fst (main (ex_args 2 1 (Some ''trace.json''))
         (ex_env [''_jit_bailout_depth'' \<mapsto> 2] [ex_frame 3]))) = [ExportTrace ''trace.json'']
   \<and> filter is_timing_result (fst (main (ex_args 2 1 (Some ''trace.json''))
         (ex_env [''_jit_bailout_depth'' \<mapsto> 2] [ex_frame 3]))) = []
   \<and> snd (main (ex_args 2 1 (Some ''trace.json''))
         (ex_env [''_jit_bailout_depth'' \<mapsto> 2] [ex_frame 3])) = None"
proof -
  let ?a = "ex_args 2 1 (Some ''trace.json'')"
  let ?env = "ex_env [''_jit_bailout_depth'' \<mapsto> 2] [ex_frame 3]"
  have n: "0 < arg_n ?a" by (simp add: ex_args_def)
  have p: "arg_profile ?a = Some ''trace.json''" by (simp add: ex_args_def)
  have d: "env_config ?env ''_jit_bailout_depth'' = Some 2" by (simp add: ex_env_def)
  have w: "(0::int) \<le> 2 + 4" by simp
  have an: "arg_n ?a = 2" by (simp add: ex_args_def)
  note t = tracing_mode_calls [OF ex_sampler n p d w]
  have "int (length (filter is_invoke (fst (main ?a ?env)))) = 1 + (2 + 4) + arg_n ?a"
    using t by blast
  then have 1: "int (length (filter is_invoke (fst (main ?a ?env)))) = 9"
    unfolding an by simp
  have 2: "filter is_export (fst (main ?a ?env)) = [ExportTrace ''trace.json'']"
    using t by blast
  have 3: "filter is_timing_result (fst (main ?a ?env)) = []"
    using t by blast
  obtain evs where "main ?a ?env = (evs, None)"
    using t by blast
  then have 4: "snd (main ?a ?env) = None" by simp
  show ?thesis using n p d w 1 2 3 4 by blast
qed


section \<open>Frame copies and the pool\<close>

lemma keeps_refl: "N \<le> next_addr h \<Longrightarrow> keeps N v h h"
  by (simp add: keeps_def)

lemma keeps_trans: "keeps N p h0 h1 \<Longrightarrow> keeps N q h1 h2 \<Longrightarrow> keeps N (p \<and> q) h0 h2"
  by (auto simp add: keeps_def)

lemma mutate_keeps:
  assumes "N \<le> b" and "N \<le> next_addr h"
  shows "keeps N (\<not> in_place m) h (mutate b m h)"
proof (cases m)
  case (SetItem k v)
  then show ?thesis using assms by (auto simp add: keeps_def split: option.splits)
next
  case (DelItem k)
  then show ?thesis using assms by (auto simp add: keeps_def split: option.splits)
next
  case (WriteInPlace k v)
  then show ?thesis using assms by (auto simp add: keeps_def split: option.splits)
qed

lemma fold_mutate_keeps:
  assumes "N \<le> b"
  shows "N \<le> next_addr h \<Longrightarrow> keeps N (\<forall>m \<in> set ms. \<not> in_place m) h (fold (mutate b) ms h)"
proof (induction ms arbitrary: h)
  case Nil
  then show ?case by (simp add: keeps_refl)
next
  case (Cons m ms)
  have 1: "keeps N (\<not> in_place m) h (mutate b m h)"
    using mutate_keeps [OF assms Cons.prems] .
  then have "N \<le> next_addr (mutate b m h)" by (simp add: keeps_def)
  then have 2: "keeps N (\<forall>m \<in> set ms. \<not> in_place m) (mutate b m h) (fold (mutate b) ms (mutate b m h))"
    by (rule Cons.IH)
  show ?case using keeps_trans [OF 1 2] by simp
qed

lemma next_copy_ok:
  assumes "pool \<noteq> []" and "dicts h (pool ! c) = Some d"
  shows "next_copy pool c h =
     Some (next_addr h, (c + 1) mod length pool,
           h\<lparr>dicts := (dicts h)(next_addr h \<mapsto> d), next_addr := next_addr h + 1\<rparr>)"
  using assms by (simp add: next_copy_def cycle_next_def dict_copy_def)

lemma copy_keeps:
  "N \<le> next_addr h \<Longrightarrow>
   keeps N True h (h\<lparr>dicts := (dicts h)(next_addr h \<mapsto> d), next_addr := next_addr h + 1\<rparr>)"
  by (simp add: keeps_def)

lemma model_call_keeps:
  assumes ne: "pool \<noteq> []" and c: "c < length pool"
    and al: "\<forall>a \<in> set pool. a < N \<and> dicts h a \<noteq> None"
    and N: "N \<le> next_addr h"
  shows "\<exists>h'. model_call pool ms (c, h) = Some ((c + 1) mod length pool, h')
            \<and> keeps N (\<forall>m \<in> set ms. \<not> in_place m) h h'"
proof -
  have "pool ! c \<in> set pool" using c by simp
  then obtain d where d: "dicts h (pool ! c) = Some d" using al by auto
  let ?h1 = "h\<lparr>dicts := (dicts h)(next_addr h \<mapsto> d), next_addr := next_addr h + 1\<rparr>"
  have call: "model_call pool ms (c, h)
                = Some ((c + 1) mod length pool, fold (mutate (next_addr h)) ms ?h1)"
    by (simp add: model_call_def next_copy_ok [OF ne d])
  have k1: "keeps N True h ?h1" using copy_keeps [OF N] .
  have N1: "N \<le> next_addr ?h1" using N by simp
  have k2: "keeps N (\<forall>m \<in> set ms. \<not> in_place m) ?h1 (fold (mutate (next_addr h)) ms ?h1)"
    using fold_mutate_keeps [OF N N1] .
  have "keeps N (\<forall>m \<in> set ms. \<not> in_place m) h (fold (mutate (next_addr h)) ms ?h1)"
    using keeps_trans [OF k1 k2] by simp
  with call show ?thesis by blast
qed

lemma run_calls_keeps:
  assumes ne: "pool \<noteq> []"
  shows "c < length pool \<Longrightarrow> \<forall>a \<in> set pool. a < N \<and> dicts h a \<noteq> None \<Longrightarrow> N \<le> next_addr h \<Longrightarrow>
     \<exists>h'. run_calls pool mss (c, h) = Some ((c + length mss) mod length pool, h')
          \<and> keeps N (\<forall>ms \<in> set mss. \<forall>m \<in> set ms. \<not> in_place m) h h'"
proof (induction mss arbitrary: c h)
  case Nil
  then show ?case by (simp add: keeps_refl)
next
  case (Cons ms mss)
  obtain h1 where call: "model_call pool ms (c, h) = Some ((c + 1) mod length pool, h1)"
    and k1: "keeps N (\<forall>m \<in> set ms. \<not> in_place m) h h1"
    using model_call_keeps [OF ne Cons.prems] by blast
  have c1: "(c + 1) mod length pool < length pool" using ne by simp
  have al1: "\<forall>a \<in> set pool. a < N \<and> dicts h1 a \<noteq> None"
    using Cons.prems(2) k1 by (simp add: keeps_def)
  have N1: "N \<le> next_addr h1" using k1 by (simp add: keeps_def)
  obtain h' where run: "run_calls pool mss ((c + 1) mod length pool, h1)
                          = Some (((c + 1) mod length pool + length mss) mod length pool, h')"
    and k2: "keeps N (\<forall>ms \<in> set mss. \<forall>m \<in> set ms. \<not> in_place m) h1 h'"
    using Cons.IH [OF c1 al1 N1] by blast
  have idx: "((c + 1) mod length pool + length mss) mod length pool
               = (c + length (ms # mss)) mod length pool"
    by (simp add: mod_add_left_eq)
  have "run_calls pool (ms # mss) (c, h) = Some ((c + length (ms # mss)) mod length pool, h')"
    using call run idx by simp
  moreover have "keeps N (\<forall>ms \<in> set (ms # mss). \<forall>m \<in> set ms. \<not> in_place m) h h'"
    using keeps_trans [OF k1 k2] by simp
  ultimately show ?case by blast
qed

lemma view_kept:
  assumes k: "keeps N True h h'"
    and a: "a < N"
    and refs: "\<exists>d. dicts h a = Some d \<and> (\<forall>k t. d k = Some t \<longrightarrow> t < N)"
  shows "frame_view h' a = frame_view h a"
proof -
  obtain d where d: "dicts h a = Some d" and r: "\<forall>k t. d k = Some t \<longrightarrow> t < N"
    using refs by blast
  have d': "dicts h' a = Some d" using k a d by (simp add: keeps_def)
  have "(\<lambda>k. case d k of None \<Rightarrow> None | Some t \<Rightarrow> tensors h' t)
          = (\<lambda>k. case d k of None \<Rightarrow> None | Some t \<Rightarrow> tensors h t)"
  proof
    fix k
    show "(case d k of None \<Rightarrow> None | Some t \<Rightarrow> tensors h' t)
            = (case d k of None \<Rightarrow> None | Some t \<Rightarrow> tensors h t)"
      using r k by (cases "d k") (simp_all add: keeps_def)
  qed
  then show ?thesis by (simp add: frame_view_def d d')
qed


text \<open>
  Claim C2, as amended. Each retrieval hands the model a fresh shallow copy of the next
  frame in round-robin order: a new dictionary, distinct from every pool frame, with the
  entries of that frame, that is, with the same tensor objects. Whatever the model does,
  the dictionaries of the pool keep their entries; and when the model only binds or
  deletes keys of the dictionary it was handed, every later retrieval reads the values
  of the original frame. The calls always return on a well-formed non-empty pool.
\<close>

theorem copy_protects_mapping:
  fixes h :: "'t heap"
  assumes ok: "pool_ok pool h" and ne: "pool \<noteq> []" and c: "c < length pool"
  shows "\<exists>c' h' b h''.
           run_calls pool mss (c, h) = Some (c', h')
         \<and> c' = (c + length mss) mod length pool
         \<and> next_copy pool c' h' = Some (b, (c' + 1) mod length pool, h'')
         \<and> b \<notin> set pool
         \<and> dicts h'' b = dicts h (pool ! c')
         \<and> (\<forall>a \<in> set pool. dicts h'' a = dicts h a)
         \<and> ((\<forall>ms \<in> set mss. \<forall>m \<in> set ms. \<not> in_place m) \<longrightarrow>
              frame_view h'' b = frame_view h (pool ! c') \<and>
              (\<forall>a \<in> set pool. frame_view h'' a = frame_view h a))"
proof -
  let ?N = "next_addr h"
  let ?quiet = "\<forall>ms \<in> set mss. \<forall>m \<in> set ms. \<not> in_place m"
  let ?c' = "(c + length mss) mod length pool"
  have al: "\<forall>a \<in> set pool. a < ?N \<and> dicts h a \<noteq> None"
    using ok by (auto simp add: pool_ok_def)
  obtain h' where run: "run_calls pool mss (c, h) = Some (?c', h')"
    and k: "keeps ?N ?quiet h h'"
    using run_calls_keeps [OF ne c al] by blast
  have c': "?c' < length pool" using ne by simp
  then have mem: "pool ! ?c' \<in> set pool" by simp
  then obtain d where d: "dicts h (pool ! ?c') = Some d" using al by auto
  have lt: "pool ! ?c' < ?N" using al mem by blast
  have d': "dicts h' (pool ! ?c') = Some d" using k lt d by (simp add: keeps_def)
  let ?b = "next_addr h'"
  let ?h'' = "h'\<lparr>dicts := (dicts h')(?b \<mapsto> d), next_addr := ?b + 1\<rparr>"
  have nc: "next_copy pool ?c' h' = Some (?b, (?c' + 1) mod length pool, ?h'')"
    using next_copy_ok [OF ne d'] .
  have Nb: "?N \<le> ?b" using k by (simp add: keeps_def)
  have fresh: "?b \<notin> set pool" using al Nb by auto
  have db: "dicts ?h'' ?b = dicts h (pool ! ?c')" using d by simp
  have k2: "keeps ?N ?quiet h ?h''"
    using keeps_trans [OF k copy_keeps [OF Nb, of d]] by simp
  have dp: "\<forall>a \<in> set pool. dicts ?h'' a = dicts h a"
    using k2 al by (simp add: keeps_def)
  have views: "?quiet \<longrightarrow>
      frame_view ?h'' ?b = frame_view h (pool ! ?c') \<and>
      (\<forall>a \<in> set pool. frame_view ?h'' a = frame_view h a)"
  proof
    assume q: ?quiet
    then have kt: "keeps ?N True h ?h''" using k2 by simp
    have pv: "\<forall>a \<in> set pool. frame_view ?h'' a = frame_view h a"
    proof
      fix a assume "a \<in> set pool"
      then have "a < ?N" and "\<exists>d. dicts h a = Some d \<and> (\<forall>k t. d k = Some t \<longrightarrow> t < ?N)"
        using ok by (auto simp add: pool_ok_def)
      then show "frame_view ?h'' a = frame_view h a" using view_kept [OF kt] by blast
    qed
    have "frame_view ?h'' ?b = frame_view ?h'' (pool ! ?c')"
      using dp mem d by (simp add: frame_view_def)
    then have "frame_view ?h'' ?b = frame_view h (pool ! ?c')" using pv mem by simp
    then show "frame_view ?h'' ?b = frame_view h (pool ! ?c') \<and>
      (\<forall>a \<in> set pool. frame_view ?h'' a = frame_view h a)" using pv by blast
  qed
  show ?thesis using run nc fresh db dp views by blast
qed


lemma ex_pool_ok: "pool_ok [0, 1] ex_heap"
  by (auto simp add: pool_ok_def ex_heap_def split: if_splits)

theorem copy_protects_mapping_witness:
  "map_option fst (run_calls [0, 1] [[SetItem ''forces'' 9, DelItem ''pos'']] (0, ex_heap)) = Some 1
   \<and> (case run_calls [0, 1] [[SetItem ''forces'' 9, DelItem ''pos'']] (0, ex_heap) of
         None \<Rightarrow> None
       | Some s \<Rightarrow> next_read [0, 1] ''pos'' s) = Some (Some 6)
   \<and> (case run_calls [0, 1] [[SetItem ''forces'' 9, DelItem ''pos'']] (0, ex_heap) of
         None \<Rightarrow> None
       | Some s \<Rightarrow> next_read [0, 1] ''forces'' s) = Some None"
proof -
  let ?mss = "[[SetItem ''forces'' 9, DelItem ''pos'']] :: nat mutation list list"
  have ne: "[0, 1::nat] \<noteq> []" by simp
  have c: "(0::nat) < length [0, 1::nat]" by simp
  have q: "\<forall>ms \<in> set ?mss. \<forall>m \<in> set ms. \<not> in_place m" by simp
  obtain c' h' b h'' where
    run: "run_calls [0, 1] ?mss (0, ex_heap) = Some (c', h')"
    and c': "c' = (0 + length ?mss) mod length [0, 1::nat]"
    and nc: "next_copy [0, 1] c' h' = Some (b, (c' + 1) mod length [0, 1::nat], h'')"
    and v: "(\<forall>ms \<in> set ?mss. \<forall>m \<in> set ms. \<not> in_place m) \<longrightarrow>
              frame_view h'' b = frame_view ex_heap ([0, 1] ! c') \<and>
              (\<forall>a \<in> set [0, 1::nat]. frame_view h'' a = frame_view ex_heap a)"
    using copy_protects_mapping [OF ex_pool_ok ne c, of ?mss] by blast
  have one: "c' = 1" using c' by simp
  have "frame_view h'' b = frame_view ex_heap ([0, 1] ! c')" using v q by blast
  then have fv: "frame_view h'' b = frame_view ex_heap 1" unfolding one by simp
  have r: "read_key ex_heap 1 ''pos'' = Some 6" "read_key ex_heap 1 ''forces'' = None"
    by (simp_all add: read_key_def frame_view_def ex_heap_def)
  have rb: "read_key h'' b ''pos'' = Some 6" "read_key h'' b ''forces'' = None"
    using r unfolding read_key_def fv by simp_all
  have nr: "next_read [0, 1] ''pos'' (c', h') = Some (Some 6)"
    "next_read [0, 1] ''forces'' (c', h') = Some None"
    unfolding next_read_def using nc rb by simp_all
  show ?thesis unfolding run using one nr by simp
qed


text \<open>
  The claim C2 as stated fails: the copy is not deep. A model that writes into the
  position tensor of the frame it was handed changes what the next retrieval reads.
\<close>

theorem in_place_write_counterexample:
  "next_read [0] ''pos'' (0, ex_heap) = Some (Some 5)
   \<and> (case run_calls [0] [[WriteInPlace ''pos'' 7]] (0, ex_heap) of
         None \<Rightarrow> None
       | Some s \<Rightarrow> next_read [0] ''pos'' s) = Some (Some 7)"
  by (simp add: next_read_def model_call_def next_copy_def cycle_next_def dict_copy_def ex_heap_def
      read_key_def frame_view_def)

end
